theory Spec2Isabelle
  imports Complex_Main "HOL-Library.Word"
begin

section \<open>EgoMirror: the session, playback and transcript logic of \<open>src/App.tsx\<close>\<close>

text \<open>
  The component \<open>App\<close> keeps its state in React state cells (\<open>sessionState\<close>,
  \<open>messages\<close>, \<open>error\<close>) and in mutable refs (\<open>sourcesRef\<close>, \<open>nextStartTimeRef\<close>,
  \<open>streamRef\<close>, \<open>activeSessionRef\<close>, \<open>currentInputRef\<close>, \<open>currentOutputRef\<close>, the two
  audio contexts).  Every handler of the file is embedded as a function from the state
  before to the state after.  JavaScript runs the handlers one at a time; an \<open>await\<close>
  ends one run and its continuation is a run of its own, so a handler that awaits is
  embedded as two functions, one per run.  A callback given to \<open>then\<close> runs once its
  promise has resolved.

  Calls into the platform (\<open>session.close()\<close>, \<open>source.start(t)\<close>,
  \<open>session.sendRealtimeInput\<close>, \<open>ai.live.connect\<close>, ...) are recorded in the state, in
  call order, so that theorems can speak about them.  Objects created at run time
  (sessions, buffer sources, media streams) are identified by natural numbers.
\<close>

subsection \<open>JavaScript strings\<close>

text \<open>
  A JavaScript string is a sequence of UTF-16 code units.  \<open>js\<close> embeds an ASCII literal.
  \<open>trim\<close> is \<open>String.prototype.trim\<close>: it strips the ECMAScript white space and line
  terminator code units from both ends.  A string is truthy when it is not empty.
\<close>

type_synonym jsstring = "16 word list"

definition js :: "string \<Rightarrow> jsstring" where
  "js s = map (\<lambda>c. word_of_nat (of_char c)) s"

definition isWhiteSpace :: "16 word \<Rightarrow> bool" where
  "isWhiteSpace c \<longleftrightarrow>
     c = 0x09 \<or> c = 0x0A \<or> c = 0x0B \<or> c = 0x0C \<or> c = 0x0D \<or> c = 0x20 \<or> c = 0xA0 \<or>
     c = 0x1680 \<or> (0x2000 \<le> c \<and> c \<le> 0x200A) \<or> c = 0x2028 \<or> c = 0x2029 \<or>
     c = 0x202F \<or> c = 0x205F \<or> c = 0x3000 \<or> c = 0xFEFF"

definition trim :: "jsstring \<Rightarrow> jsstring" where
  "trim s = rev (dropWhile isWhiteSpace (rev (dropWhile isWhiteSpace s)))"

definition truthy :: "jsstring option \<Rightarrow> bool" where
  "truthy x = (case x of None \<Rightarrow> False | Some s \<Rightarrow> s \<noteq> [])"

text \<open>
  \<open>s += x\<close> on a string \<open>s\<close> appends \<open>ToString(x)\<close>.  \<open>to_string\<close> is \<open>ToString\<close> on a
  value that is a string (\<open>Some t\<close>) or \<open>undefined\<close> (\<open>None\<close>).
\<close>

definition to_string :: "jsstring option \<Rightarrow> jsstring" where
  "to_string x = (case x of None \<Rightarrow> js ''undefined'' | Some t \<Rightarrow> t)"

subsection \<open>JavaScript numbers\<close>

text \<open>
  The times of the program (\<open>ctx.currentTime\<close>, \<open>buffer.duration\<close>, \<open>nextStartTimeRef\<close>) are
  finite IEEE 754 doubles.  Every finite double is a real number, and \<open>Math.max\<close> and the
  comparisons of doubles are those of the reals, so a time is embedded as the real it
  denotes.  The addition of doubles rounds, so it is \<^emph>\<open>not\<close> the addition of the reals: it
  is a parameter \<open>fadd\<close> of every function that adds (line 161) and of everything that
  runs such a function, and nothing is assumed about it.  The one property of it that a
  theorem below needs is stated there as a hypothesis, \<open>fadd_grows\<close>: adding a number that
  is not negative does not give a smaller number, which holds of the rounded addition
  because rounding is monotone and leaves a double as it is.
\<close>

type_synonym number_add = "real \<Rightarrow> real \<Rightarrow> real"

definition fadd_grows :: "number_add \<Rightarrow> bool" where
  "fadd_grows fadd \<longleftrightarrow> (\<forall>x d. 0 \<le> d \<longrightarrow> x \<le> fadd x d)"

subsection \<open>Data (\<open>src/types.ts\<close> and the state of \<open>App\<close>)\<close>

datatype SessionState = S_disconnected | S_connecting | S_connected | S_error

datatype Role = user | model

text \<open>
  \<open>Message\<close> of \<open>types.ts\<close>.  The fields carry the prefix \<open>msg_\<close> because \<open>id\<close> and
  \<open>text\<close> are taken in Isabelle.  \<open>msg_id\<close> is the value \<open>crypto.randomUUID()\<close> returned,
  \<open>msg_timestamp\<close> the value \<open>Date.now()\<close> returned.
\<close>

record Message =
  msg_id :: jsstring
  msg_role :: Role
  msg_text :: jsstring
  msg_timestamp :: int

text \<open>
  The fields of a \<open>LiveServerMessage\<close> that \<open>onmessage\<close> reads, each through an
  optional chain from \<open>message.serverContent\<close>: an absent link of the chain is \<open>None\<close>
  (\<open>False\<close> for the two flags, which are only tested for truthiness).  A transcription
  is an object, truthy whatever it holds, with an optional \<open>text\<close>:
  \<open>outputTranscription = Some (Some t)\<close> is a transcription whose \<open>text\<close> is \<open>t\<close>, and
  \<open>outputTranscription = Some None\<close> one that has no \<open>text\<close>.
  \<open>inlineData\<close> is \<open>modelTurn?.parts?.[0]?.inlineData?.data\<close>, the base64 audio.
\<close>

type_synonym Transcription = "jsstring option"

record LiveServerMessage =
  outputTranscription :: "Transcription option"
  inputTranscription :: "Transcription option"
  turnComplete :: bool
  inlineData :: "jsstring option"
  interrupted :: bool

text \<open>
  What one run of \<open>onmessage\<close> reads from the platform: \<open>ctx.currentTime\<close> of the output
  context, and the results of the calls of \<open>crypto.randomUUID()\<close> and \<open>Date.now()\<close>,
  numbered from 0 within the run.
\<close>

record Env =
  currentTime :: real
  randomUUID :: "nat \<Rightarrow> jsstring"
  DateNow :: "nat \<Rightarrow> int"

text \<open>
  The state of \<open>App\<close>.  The first block is the state the source declares (lines
  23-48); an audio context ref is \<open>True\<close> once the context exists.  The second block
  records what has happened on the platform so far: \<open>connects\<close> counts the calls of
  \<open>ai.live.connect\<close> (the sessions are numbered from 0 in the order of these calls),
  \<open>resolvedSessions\<close> holds the sessions whose promise has resolved, \<open>greetingThens\<close> the
  callbacks of line 125 that wait for their promise (session and text), \<open>processors\<close>
  the sessions whose \<open>onopen\<close> installed a script processor, \<open>sourceCount\<close> counts
  \<open>createBufferSource\<close>, \<open>sourceStarts\<close> lists the calls \<open>source.start(t)\<close> as (source, t,
  buffer.duration), and the remaining fields list the targets of \<open>close()\<close>,
  \<open>track.stop()\<close>, \<open>source.stop()\<close> and \<open>sendRealtimeInput\<close>.
\<close>

record App =
  sessionState :: SessionState
  messages :: "Message list"
  error :: "jsstring option"
  inputAudioCtxRef :: bool
  outputAudioCtxRef :: bool
  sourcesRef :: "nat set"
  nextStartTimeRef :: real
  streamRef :: "nat option"
  activeSessionRef :: "nat option"
  currentInputRef :: jsstring
  currentOutputRef :: jsstring
  connects :: nat
  resolvedSessions :: "nat set"
  greetingThens :: "(nat \<times> jsstring) list"
  processors :: "nat set"
  sourceCount :: nat
  sourceStarts :: "(nat \<times> real \<times> real) list"
  closeCalls :: "nat list"
  trackStops :: "nat list"
  sourceStops :: "nat set"
  sentAudio :: "nat list"
  sentText :: "(nat \<times> jsstring) list"

text \<open>The state at mount: the initial values of lines 23-48, and no platform call yet.\<close>

definition App_init :: App where
  "App_init = \<lparr> sessionState = S_disconnected, messages = [], error = None,
     inputAudioCtxRef = False, outputAudioCtxRef = False, sourcesRef = {},
     nextStartTimeRef = 0, streamRef = None, activeSessionRef = None,
     currentInputRef = [], currentOutputRef = [],
     connects = 0, resolvedSessions = {}, greetingThens = [], processors = {},
     sourceCount = 0, sourceStarts = [],
     closeCalls = [], trackStops = [], sourceStops = {}, sentAudio = [], sentText = [] \<rparr>"

subsection \<open>\<open>stopSession\<close> (lines 50-65)\<close>

text \<open>
  \<open>source.stop()\<close> is wrapped in \<open>try/catch\<close>, so the loop over \<open>sourcesRef\<close> always
  completes.  \<open>session.close()\<close> and \<open>track.stop()\<close> are platform calls that close a
  socket and end a track; they are taken not to throw, so the function has no failing
  branch.
\<close>

definition stopSession :: "App \<Rightarrow> App" where
  "stopSession st =
    (let st1 = (case activeSessionRef st of
                  Some s \<Rightarrow> st\<lparr>closeCalls := closeCalls st @ [s], activeSessionRef := None\<rparr>
                | None \<Rightarrow> st);
         st2 = (case streamRef st1 of
                  Some m \<Rightarrow> st1\<lparr>trackStops := trackStops st1 @ [m], streamRef := None\<rparr>
                | None \<Rightarrow> st1)
     in st2\<lparr>sourceStops := sourceStops st2 \<union> sourcesRef st2, sourcesRef := {},
            nextStartTimeRef := 0, sessionState := S_disconnected\<rparr>)"

subsection \<open>\<open>startSession\<close> (lines 67-186)\<close>

text \<open>
  \<open>startSession\<close> awaits on lines 78-81, so it is embedded as two runs.  An exception is
  represented by its \<open>err.message\<close> (\<open>None\<close> when it has none); \<open>startSession_catch\<close> is
  the \<open>catch\<close> block of lines 182-185.

  \<open>startSession_begin exn\<close> is the first run, lines 69-77: it sets the state and clears
  the error, calls the constructor of line 72, which throws \<open>exn = Some msg\<close> or returns
  (\<open>exn = None\<close>), and creates the two audio contexts if they do not exist.

  \<open>startSession_resume out\<close> is the continuation: either one of the awaited promises
  rejects (\<open>Thrown msg\<close>), or \<open>getUserMedia\<close> resolves with a stream (\<open>Granted stream\<close>)
  and lines 82-180 run: the stream is stored and \<open>ai.live.connect\<close> is called.  The
  promise of the new session resolves later: \<open>session_resolved s\<close> is the callback of
  line 180, registered first, followed by the callbacks of line 125 that were waiting for
  this promise.  \<open>startSession exn out\<close> is the whole function when no other handler runs during
  its awaits.
\<close>

type_synonym exn = "jsstring option"

datatype start_outcome = Thrown exn | Granted nat

definition could_not_reach :: jsstring where
  "could_not_reach = js ''Could not reach the sanctuary.''"

definition lost_focus :: jsstring where
  "lost_focus = js ''The mirror lost its focus. Let'' @ [0x27] @ js ''s try again.''"

definition startSession_catch :: "exn \<Rightarrow> App \<Rightarrow> App" where
  "startSession_catch msg st =
    st\<lparr>error := Some (case msg of
                         Some t \<Rightarrow> if t \<noteq> [] then t else could_not_reach
                       | None \<Rightarrow> could_not_reach),
       sessionState := S_disconnected\<rparr>"

definition startSession_begin :: "exn option \<Rightarrow> App \<Rightarrow> App" where
  "startSession_begin exn st =
    (let st1 = st\<lparr>sessionState := S_connecting, error := None\<rparr>
     in case exn of
          Some msg \<Rightarrow> startSession_catch msg st1
        | None \<Rightarrow> st1\<lparr>inputAudioCtxRef := True, outputAudioCtxRef := True\<rparr>)"

definition startSession_resume :: "start_outcome \<Rightarrow> App \<Rightarrow> App" where
  "startSession_resume out st =
    (case out of
       Thrown msg \<Rightarrow> startSession_catch msg st
     | Granted stream \<Rightarrow> st\<lparr>streamRef := Some stream, connects := connects st + 1\<rparr>)"

definition startSession :: "exn option \<Rightarrow> start_outcome \<Rightarrow> App \<Rightarrow> App" where
  "startSession exn out st =
    (case exn of
       Some msg \<Rightarrow> startSession_begin exn st
     | None \<Rightarrow> startSession_resume out (startSession_begin exn st))"

definition session_resolved :: "nat \<Rightarrow> App \<Rightarrow> App" where
  "session_resolved s st =
    st\<lparr>activeSessionRef := Some s,
       resolvedSessions := insert s (resolvedSessions st),
       sentText := sentText st @ filter (\<lambda>g. fst g = s) (greetingThens st),
       greetingThens := filter (\<lambda>g. fst g \<noteq> s) (greetingThens st)\<rparr>"

subsection \<open>The callbacks of the session (lines 107-177)\<close>

text \<open>
  \<open>onopen\<close> of session \<open>s\<close> (lines 108-127), started with \<open>initialText\<close>.  The greeting is
  sent from a \<open>then\<close> of the session promise, without a look at \<open>activeSessionRef\<close>: at
  once when the promise has resolved already, and otherwise when it resolves.
\<close>

definition onopen :: "nat \<Rightarrow> jsstring option \<Rightarrow> App \<Rightarrow> App" where
  "onopen s initialText st =
    (let st1 = st\<lparr>sessionState := S_connected, processors := insert s (processors st)\<rparr>
     in case initialText of
          Some t \<Rightarrow>
            if t = [] then st1
            else if s \<in> resolvedSessions st1 then st1\<lparr>sentText := sentText st1 @ [(s, t)]\<rparr>
            else st1\<lparr>greetingThens := greetingThens st1 @ [(s, t)]\<rparr>
        | None \<Rightarrow> st1)"

text \<open>
  The body of the \<open>then\<close> in \<open>processor.onaudioprocess\<close> of session \<open>s\<close> (lines 117-119).
  It runs once the promise of \<open>s\<close> has resolved, so \<open>session\<close> is the session object \<open>s\<close>
  and truthy; what is left of the guard is \<open>activeSessionRef.current\<close>.
\<close>

definition onaudioprocess :: "nat \<Rightarrow> App \<Rightarrow> App" where
  "onaudioprocess s st =
    (if activeSessionRef st \<noteq> None then st\<lparr>sentAudio := sentAudio st @ [s]\<rparr> else st)"

text \<open>
  \<open>onmessage\<close>, lines 129-134: the transcriptions (\<open>if ... else if\<close>).  The branch is
  chosen by the transcription object; what is appended is its \<open>text\<close>, converted to a
  string.
\<close>

definition onmessage_transcriptions :: "LiveServerMessage \<Rightarrow> App \<Rightarrow> App" where
  "onmessage_transcriptions m st =
    (case outputTranscription m of
       Some tr \<Rightarrow> st\<lparr>currentOutputRef := currentOutputRef st @ to_string tr\<rparr>
     | None \<Rightarrow>
        (case inputTranscription m of
           Some tr \<Rightarrow> st\<lparr>currentInputRef := currentInputRef st @ to_string tr\<rparr>
         | None \<Rightarrow> st))"

text \<open>\<open>onmessage\<close>, lines 136-148: the end of a turn.\<close>

definition onmessage_turnComplete :: "Env \<Rightarrow> LiveServerMessage \<Rightarrow> App \<Rightarrow> App" where
  "onmessage_turnComplete env m st =
    (if turnComplete m then
       (let uText = trim (currentInputRef st);
            mText = trim (currentOutputRef st);
            st1 = (if uText \<noteq> [] \<or> mText \<noteq> [] then
                     st\<lparr>messages := messages st
                        @ (if uText \<noteq> [] then
                             [\<lparr>msg_id = randomUUID env 0, msg_role = user, msg_text = uText,
                               msg_timestamp = DateNow env 0\<rparr>]
                           else [])
                        @ (if mText \<noteq> [] then
                             [\<lparr>msg_id = randomUUID env (if uText \<noteq> [] then 1 else 0),
                               msg_role = model, msg_text = mText,
                               msg_timestamp = DateNow env (if uText \<noteq> [] then 1 else 0)\<rparr>]
                           else [])\<rparr>
                   else st)
        in st1\<lparr>currentInputRef := [], currentOutputRef := []\<rparr>)
     else st)"

text \<open>\<open>onmessage\<close>, lines 165-169: the interruption.\<close>

definition onmessage_interrupted :: "LiveServerMessage \<Rightarrow> App \<Rightarrow> App" where
  "onmessage_interrupted m st =
    (if interrupted m then
       st\<lparr>sourceStops := sourceStops st \<union> sourcesRef st, sourcesRef := {},
          nextStartTimeRef := 0\<rparr>
     else st)"

text \<open>
  The audio part (lines 151-163) is entered when the base64 string is truthy and the
  output context exists; it awaits \<open>decodeAudioData\<close> on line 155.
\<close>

definition awaits_decode :: "LiveServerMessage \<Rightarrow> App \<Rightarrow> bool" where
  "awaits_decode m st \<longleftrightarrow> truthy (inlineData m) \<and> outputAudioCtxRef st"

text \<open>
  The first run of \<open>onmessage\<close>: from line 129 to the \<open>await\<close> of line 155 when the audio
  part is entered (line 154 has then raised the clock to the device time), and to the
  end of the handler otherwise.
\<close>

definition onmessage_begin :: "Env \<Rightarrow> LiveServerMessage \<Rightarrow> App \<Rightarrow> App" where
  "onmessage_begin env m st =
    (let st1 = onmessage_turnComplete env m (onmessage_transcriptions m st)
     in if awaits_decode m st1 then
          st1\<lparr>nextStartTimeRef := max (nextStartTimeRef st1) (currentTime env)\<rparr>
        else onmessage_interrupted m st1)"

text \<open>
  The second run, the continuation of the \<open>await\<close>: \<open>decodeAudioData\<close> and
  \<open>decodeBase64\<close> live in \<open>utils/audio\<close>, so their result is a parameter: \<open>Some d\<close> is
  a buffer of duration \<open>d\<close>, \<open>None\<close> an exception, which ends the handler there.
  Lines 156-169 create the source, start it at the clock, advance the clock by the
  duration with the addition \<open>fadd\<close> of doubles, add the source to the active set and then
  handle the interruption flag of the same message.
\<close>

definition onmessage_resume ::
  "number_add \<Rightarrow> LiveServerMessage \<Rightarrow> real option \<Rightarrow> App \<Rightarrow> App" where
  "onmessage_resume fadd m dec st =
    (case dec of
       None \<Rightarrow> st
     | Some duration \<Rightarrow>
        (let source = sourceCount st;
             st1 = st\<lparr>sourceCount := source + 1,
                      sourceStarts := sourceStarts st @ [(source, nextStartTimeRef st, duration)],
                      nextStartTimeRef := fadd (nextStartTimeRef st) duration,
                      sourcesRef := insert source (sourcesRef st)\<rparr>
         in onmessage_interrupted m st1))"

text \<open>\<open>source.onended\<close> (line 159).\<close>

definition onended :: "nat \<Rightarrow> App \<Rightarrow> App" where
  "onended source st = st\<lparr>sourcesRef := sourcesRef st - {source}\<rparr>"

text \<open>\<open>onerror\<close> and \<open>onclose\<close> (lines 171-176).\<close>

definition onerror :: "App \<Rightarrow> App" where
  "onerror st = stopSession (st\<lparr>error := Some lost_focus\<rparr>)"

definition onclose :: "App \<Rightarrow> App" where
  "onclose st = stopSession st"

subsection \<open>The controls that call \<open>startSession\<close> and \<open>stopSession\<close>\<close>

text \<open>
  The starter prompts are rendered only while the state is \<open>disconnected\<close> (line 240).
  The main button (lines 256-258) is disabled while \<open>connecting\<close>, calls \<open>stopSession\<close>
  while \<open>connected\<close> and \<open>startSession\<close> otherwise.  A click runs the first run of
  \<open>startSession\<close>; \<open>exn\<close> is what the constructor of line 72 does in it.  \<open>PURGE LOGS\<close>
  (line 366) empties the transcript log.
\<close>

definition starterPrompt_onClick :: "exn option \<Rightarrow> App \<Rightarrow> App" where
  "starterPrompt_onClick exn st =
    (if sessionState st = S_disconnected then startSession_begin exn st else st)"

definition mainButton_onClick :: "exn option \<Rightarrow> App \<Rightarrow> App" where
  "mainButton_onClick exn st =
    (if sessionState st = S_connecting then st
     else if sessionState st = S_connected then stopSession st
     else startSession_begin exn st)"

definition purgeLogs :: "App \<Rightarrow> App" where
  "purgeLogs st = st\<lparr>messages := []\<rparr>"

subsection \<open>Runs of handlers\<close>

text \<open>
  One event is one run of one handler.  \<open>StarterPrompt exn\<close> and \<open>MainButton exn\<close> are
  clicks; \<open>StartResume out\<close> is the continuation of a \<open>startSession\<close> that a click began.
  \<open>Message env m\<close> is the first run of \<open>onmessage\<close> on \<open>m\<close>; \<open>Decoded m dec\<close> is the
  continuation of a run that awaited the decoder.  \<open>Stop\<close> is \<open>stopSession\<close> called by the
  cleanup of line 193.  \<open>run\<close> executes a list of events in order.  Both take the
  addition of doubles as their first argument.
\<close>

datatype event =
    StarterPrompt "exn option"
  | MainButton "exn option"
  | StartResume start_outcome
  | Resolved nat
  | OnOpen nat "jsstring option"
  | AudioProcess nat
  | Message Env LiveServerMessage
  | Decoded LiveServerMessage "real option"
  | Ended nat
  | OnError
  | OnClose
  | Stop
  | PurgeLogs

fun step :: "number_add \<Rightarrow> event \<Rightarrow> App \<Rightarrow> App" where
  "step fadd (StarterPrompt exn) st = starterPrompt_onClick exn st"
| "step fadd (MainButton exn) st = mainButton_onClick exn st"
| "step fadd (StartResume out) st = startSession_resume out st"
| "step fadd (Resolved s) st = session_resolved s st"
| "step fadd (OnOpen s txt) st = onopen s txt st"
| "step fadd (AudioProcess s) st = onaudioprocess s st"
| "step fadd (Message env m) st = onmessage_begin env m st"
| "step fadd (Decoded m dec) st = onmessage_resume fadd m dec st"
| "step fadd (Ended source) st = onended source st"
| "step fadd OnError st = onerror st"
| "step fadd OnClose st = onclose st"
| "step fadd Stop st = stopSession st"
| "step fadd PurgeLogs st = purgeLogs st"

fun run :: "number_add \<Rightarrow> event list \<Rightarrow> App \<Rightarrow> App" where
  "run fadd [] st = st"
| "run fadd (e # es) st = run fadd es (step fadd e st)"

text \<open>
  \<open>onmessage\<close> when nothing else runs between its two halves: the whole handler on
  one message, with the decoder's result \<open>dec\<close>.
\<close>

definition onmessage ::
  "number_add \<Rightarrow> Env \<Rightarrow> LiveServerMessage \<Rightarrow> real option \<Rightarrow> App \<Rightarrow> App" where
  "onmessage fadd env m dec st =
    (if awaits_decode m st then onmessage_resume fadd m dec (onmessage_begin env m st)
     else onmessage_begin env m st)"

subsection \<open>Runs that concern the playback scheduler\<close>

text \<open>
  \<open>flushes e st\<close>: the run \<open>e\<close>, from state \<open>st\<close>, executes the flush of lines 165-169
  or the one of \<open>stopSession\<close> (lines 59-63).  A message with the \<open>interrupted\<close> flag
  flushes in its first run when it does not await the decoder, and in its continuation
  otherwise, unless the decoder threw.  \<open>unflushed fadd evs st\<close>: no event of the run \<open>evs\<close>
  from \<open>st\<close> flushes.
\<close>

fun flushes :: "event \<Rightarrow> App \<Rightarrow> bool" where
  "flushes Stop st = True"
| "flushes OnError st = True"
| "flushes OnClose st = True"
| "flushes (MainButton exn) st = (sessionState st = S_connected)"
| "flushes (Message env m) st = (interrupted m \<and> \<not> awaits_decode m st)"
| "flushes (Decoded m dec) st = (interrupted m \<and> dec \<noteq> None)"
| "flushes _ st = False"

fun unflushed :: "number_add \<Rightarrow> event list \<Rightarrow> App \<Rightarrow> bool" where
  "unflushed fadd [] st = True"
| "unflushed fadd (e # es) st = (\<not> flushes e st \<and> unflushed fadd es (step fadd e st))"

text \<open>
  \<open>arrives_in_time e st\<close>: when \<open>e\<close> is the arrival of a message with audio, the device
  time it reads on line 154 has not passed the clock.  \<open>in_time fadd evs st\<close>: this holds
  for every arrival in the run.
\<close>

fun arrives_in_time :: "event \<Rightarrow> App \<Rightarrow> bool" where
  "arrives_in_time (Message env m) st =
     (if awaits_decode m st then currentTime env \<le> nextStartTimeRef st else True)"
| "arrives_in_time _ st = True"

fun in_time :: "number_add \<Rightarrow> event list \<Rightarrow> App \<Rightarrow> bool" where
  "in_time fadd [] st = True"
| "in_time fadd (e # es) st = (arrives_in_time e st \<and> in_time fadd es (step fadd e st))"

text \<open>
  \<open>decoded_durations evs\<close>: the durations of the buffers whose decoding completes in
  \<open>evs\<close>, in order of completion.  \<open>chain_from fadd n t ds\<close>: sources \<open>n, n+1, ...\<close> with the
  durations \<open>ds\<close>, the first starting at \<open>t\<close> and each next one at the end of the one
  before, the end being the start plus the duration as \<open>fadd\<close> computes it.
  \<open>ordered_from fadd t xs\<close>: the first item of \<open>xs\<close> starts at \<open>t\<close> or later and each next
  one at that end of the one before or later.
\<close>

fun decoded_durations :: "event list \<Rightarrow> real list" where
  "decoded_durations [] = []"
| "decoded_durations (Decoded m (Some d) # es) = d # decoded_durations es"
| "decoded_durations (e # es) = decoded_durations es"

fun chain_from :: "number_add \<Rightarrow> nat \<Rightarrow> real \<Rightarrow> real list \<Rightarrow> (nat \<times> real \<times> real) list" where
  "chain_from fadd n t [] = []"
| "chain_from fadd n t (d # ds) = (n, t, d) # chain_from fadd (Suc n) (fadd t d) ds"

fun ordered_from :: "number_add \<Rightarrow> real \<Rightarrow> (nat \<times> real \<times> real) list \<Rightarrow> bool" where
  "ordered_from fadd t [] = True"
| "ordered_from fadd t ((n, s, d) # xs) = (t \<le> s \<and> ordered_from fadd (fadd s d) xs)"

definition start_of :: "nat \<times> real \<times> real \<Rightarrow> real" where
  "start_of x = fst (snd x)"

definition duration_of :: "nat \<times> real \<times> real \<Rightarrow> real" where
  "duration_of x = snd (snd x)"

text \<open>\<open>scheduled fadd evs st\<close>: the calls \<open>source.start\<close> made during the run, in order.\<close>

definition scheduled :: "number_add \<Rightarrow> event list \<Rightarrow> App \<Rightarrow> (nat \<times> real \<times> real) list" where
  "scheduled fadd evs st = drop (length (sourceStarts st)) (sourceStarts (run fadd evs st))"

text \<open>
  \<open>touches_clock e st\<close>: the run \<open>e\<close> executes one of the four assignments to
  \<open>nextStartTimeRef\<close> (lines 63, 154, 161, 168).  \<open>nonneg_duration e\<close>: a decoded buffer
  has a duration that is not negative, as every \<open>AudioBuffer\<close> has.
\<close>

fun touches_clock :: "event \<Rightarrow> App \<Rightarrow> bool" where
  "touches_clock (Message env m) st = (awaits_decode m st \<or> interrupted m)"
| "touches_clock (Decoded m dec) st = (dec \<noteq> None)"
| "touches_clock Stop st = True"
| "touches_clock OnError st = True"
| "touches_clock OnClose st = True"
| "touches_clock (MainButton exn) st = (sessionState st = S_connected)"
| "touches_clock _ st = False"

fun nonneg_duration :: "event \<Rightarrow> bool" where
  "nonneg_duration (Decoded m (Some d)) = (0 \<le> d)"
| "nonneg_duration _ = True"

subsection \<open>Runs that concern the transcript\<close>

text \<open>\<open>emitted st st'\<close>: the Turns appended to the transcript log between \<open>st\<close> and \<open>st'\<close>.\<close>

definition emitted :: "App \<Rightarrow> App \<Rightarrow> Message list" where
  "emitted st st' = drop (length (messages st)) (messages st')"

text \<open>
  What lines 130-134 append on a message: \<open>output_delta m\<close> to the model accumulator and
  \<open>input_delta m\<close> to the user accumulator.  \<open>output_deltas evs\<close> and \<open>input_deltas evs\<close>
  concatenate them over the messages that arrive in a run; \<open>ends_turn e\<close>: the run \<open>e\<close>
  is the arrival of a message with \<open>turnComplete\<close>.
\<close>

definition output_delta :: "LiveServerMessage \<Rightarrow> jsstring" where
  "output_delta m = (case outputTranscription m of Some tr \<Rightarrow> to_string tr | None \<Rightarrow> [])"

definition input_delta :: "LiveServerMessage \<Rightarrow> jsstring" where
  "input_delta m =
    (case outputTranscription m of
       Some tr \<Rightarrow> []
     | None \<Rightarrow> (case inputTranscription m of Some tr \<Rightarrow> to_string tr | None \<Rightarrow> []))"

fun output_deltas :: "event list \<Rightarrow> jsstring" where
  "output_deltas [] = []"
| "output_deltas (Message env m # es) = output_delta m @ output_deltas es"
| "output_deltas (e # es) = output_deltas es"

fun input_deltas :: "event list \<Rightarrow> jsstring" where
  "input_deltas [] = []"
| "input_deltas (Message env m # es) = input_delta m @ input_deltas es"
| "input_deltas (e # es) = input_deltas es"

fun ends_turn :: "event \<Rightarrow> bool" where
  "ends_turn (Message env m) = turnComplete m"
| "ends_turn e = False"

text \<open>\<open>resolves e\<close>: the run \<open>e\<close> is the callback of line 180, which stores a session handle.\<close>

fun resolves :: "event \<Rightarrow> bool" where
  "resolves (Resolved s) = True"
| "resolves _ = False"

subsection \<open>Concrete inputs\<close>

text \<open>
  Inputs on which the theorems below are evaluated: a platform whose k-th UUID is
  k+1 letters \<open>u\<close>; messages that carry one payload each, a message with both
  transcriptions, an output transcription without \<open>text\<close>, and a message with audio and the
  \<open>interrupted\<close> flag; and the state of a session that has been started with the main
  button, has opened and whose promise has resolved.  The times of these inputs are small
  multiples of 1/2, on which the addition of doubles is exact, so the runs are evaluated
  with \<open>(+)\<close>.
\<close>

definition example_env :: "real \<Rightarrow> Env" where
  "example_env t = \<lparr> currentTime = t, randomUUID = (\<lambda>k. replicate (Suc k) 0x75),
     DateNow = (\<lambda>k. 1700000000000 + int k) \<rparr>"

definition audio_message :: LiveServerMessage where
  "audio_message = \<lparr> outputTranscription = None, inputTranscription = None,
     turnComplete = False, inlineData = Some (js ''AAAA''), interrupted = False \<rparr>"

definition turn_message :: LiveServerMessage where
  "turn_message = \<lparr> outputTranscription = None, inputTranscription = None,
     turnComplete = True, inlineData = None, interrupted = False \<rparr>"

definition interrupt_message :: LiveServerMessage where
  "interrupt_message = \<lparr> outputTranscription = None, inputTranscription = None,
     turnComplete = False, inlineData = None, interrupted = True \<rparr>"

definition interrupt_audio_message :: LiveServerMessage where
  "interrupt_audio_message = \<lparr> outputTranscription = None, inputTranscription = None,
     turnComplete = False, inlineData = Some (js ''AAAA''), interrupted = True \<rparr>"

definition input_message :: "jsstring \<Rightarrow> LiveServerMessage" where
  "input_message t = \<lparr> outputTranscription = None, inputTranscription = Some (Some t),
     turnComplete = False, inlineData = None, interrupted = False \<rparr>"

definition both_message :: LiveServerMessage where
  "both_message = \<lparr> outputTranscription = Some (Some (js ''Hi'')),
     inputTranscription = Some (Some (js ''yo'')),
     turnComplete = False, inlineData = None, interrupted = False \<rparr>"

definition textless_turn_message :: LiveServerMessage where
  "textless_turn_message = \<lparr> outputTranscription = Some None, inputTranscription = None,
     turnComplete = True, inlineData = None, interrupted = False \<rparr>"

definition example_connected :: App where
  "example_connected =
     run (+) [MainButton None, StartResume (Granted 0), OnOpen 0 None, Resolved 0] App_init"

text \<open>
  One audio stream: a first chunk arrives at device time 3; while it is decoded a second
  one arrives; both are decoded in turn, and a third arrives at device time 4, before the
  end of the second.
\<close>

definition example_pre :: "event list" where
  "example_pre = [Message (example_env 3) audio_message]"

definition example_stream :: "event list" where
  "example_stream = [Message (example_env 2) audio_message, Decoded audio_message (Some 1),
     Decoded audio_message (Some (1/2)), Message (example_env 4) audio_message,
     Decoded audio_message (Some 2)]"

text \<open>The user fragments \<open>Hel\<close> and \<open>lo\<close> (with a trailing blank) have arrived.\<close>

definition hello_state :: App where
  "hello_state = run (+) [Message (example_env 0) (input_message (js ''Hel'')),
                          Message (example_env 0) (input_message (js ''lo ''))] example_connected"

text \<open>
  The next session after a stop: it is started and opens, a chunk of audio arrives and is
  decoded, and one more user fragment arrives.
\<close>

definition next_session :: "event list" where
  "next_session = [MainButton None, StartResume (Granted 1), OnOpen 1 None, Resolved 1,
     Message (example_env 0) audio_message, Decoded audio_message (Some 1),
     Message (example_env 1) (input_message (js ''there''))]"

text \<open>One chunk of duration 1 has been scheduled at device time 0.\<close>

definition playing :: App where
  "playing = run (+) [Message (example_env 0) audio_message, Decoded audio_message (Some 1)]
               example_connected"

text \<open>
  A chunk of audio arrives at device time 3 and is being decoded when a message with the
  \<open>interrupted\<close> flag arrives.
\<close>

definition interrupted_inflight :: App where
  "interrupted_inflight =
     run (+) [Message (example_env 3) audio_message, Message (example_env 3) interrupt_message]
       playing"

text \<open>
  A session is started with the main button, opens, is stopped with the main button, and
  a second session is started and opens.
\<close>

definition restarted :: App where
  "restarted = run (+) [MainButton None, StartResume (Granted 0), OnOpen 0 None, Resolved 0,
                        MainButton None,
                        MainButton None, StartResume (Granted 1), OnOpen 1 None, Resolved 1]
                 App_init"

text \<open>
  The session of \<open>example_connected\<close> is stopped with the main button, which calls
  \<open>close()\<close> on it, and the main button is clicked again: \<open>startSession\<close> begins and
  awaits.  Then the \<open>onclose\<close> of the stopped session arrives (\<open>restart_closed\<close>).  The
  main button is clicked once more; both calls of \<open>startSession\<close> continue, and both
  sessions open and resolve (\<open>two_sessions\<close>).
\<close>

definition restart_closed :: App where
  "restart_closed = run (+) [MainButton None, MainButton None, OnClose] example_connected"

definition two_sessions :: App where
  "two_sessions = run (+) [MainButton None, StartResume (Granted 1), StartResume (Granted 2),
                           OnOpen 1 None, Resolved 1, OnOpen 2 None, Resolved 2] restart_closed"

section \<open>Basic facts\<close>

lemmas handler_defs = startSession_def startSession_begin_def startSession_resume_def
  startSession_catch_def session_resolved_def onopen_def onaudioprocess_def
  onmessage_begin_def onmessage_resume_def onmessage_transcriptions_def
  onmessage_turnComplete_def onmessage_interrupted_def onended_def onerror_def
  onclose_def stopSession_def starterPrompt_onClick_def mainButton_onClick_def
  purgeLogs_def awaits_decode_def

lemmas example_defs = example_env_def audio_message_def turn_message_def interrupt_message_def
  interrupt_audio_message_def input_message_def both_message_def textless_turn_message_def
  js_def truthy_def to_string_def

lemma awaits_decode_head [simp]:
  "awaits_decode m (onmessage_turnComplete env m (onmessage_transcriptions m st)) = awaits_decode m st"
  by (simp add: awaits_decode_def onmessage_turnComplete_def onmessage_transcriptions_def Let_def
      split: option.split)

lemma decoded_durations_other:
  "(\<forall>m d. e \<noteq> Decoded m (Some d)) \<Longrightarrow> decoded_durations (e # es) = decoded_durations es"
  by (cases "e # es" rule: decoded_durations.cases) auto

lemma decoded_durations_append:
  "decoded_durations (xs @ ys) = decoded_durations xs @ decoded_durations ys"
  by (induction xs rule: decoded_durations.induct) auto

lemma step_other_log:
  "(\<forall>m d. e \<noteq> Decoded m (Some d)) \<Longrightarrow>
   sourceStarts (step fadd e st) = sourceStarts st \<and> sourceCount (step fadd e st) = sourceCount st"
  by (cases e) (auto simp: handler_defs Let_def split: option.split start_outcome.split)

lemma step_other_clock:
  "\<not> flushes e st \<Longrightarrow> (\<forall>m d. e \<noteq> Decoded m (Some d)) \<Longrightarrow>
   nextStartTimeRef st \<le> nextStartTimeRef (step fadd e st)"
  by (cases e) (auto simp: handler_defs Let_def split: option.split start_outcome.split)

lemma step_other_in_time:
  "\<not> flushes e st \<Longrightarrow> arrives_in_time e st \<Longrightarrow> (\<forall>m d. e \<noteq> Decoded m (Some d)) \<Longrightarrow>
   nextStartTimeRef (step fadd e st) = nextStartTimeRef st"
  by (cases e) (auto simp: handler_defs Let_def max_def split: option.split start_outcome.split)

lemma step_decoded_log:
  "sourceStarts (step fadd (Decoded m (Some d)) st) =
     sourceStarts st @ [(sourceCount st, nextStartTimeRef st, d)] \<and>
   sourceCount (step fadd (Decoded m (Some d)) st) = Suc (sourceCount st)"
  by (simp add: onmessage_resume_def onmessage_interrupted_def Let_def)

lemma step_decoded_clock:
  "\<not> flushes (Decoded m (Some d)) st \<Longrightarrow>
   nextStartTimeRef (step fadd (Decoded m (Some d)) st) = fadd (nextStartTimeRef st) d"
  by (simp add: onmessage_resume_def onmessage_interrupted_def Let_def)

lemma sourceStarts_step: "\<exists>xs. sourceStarts (step fadd e st) = sourceStarts st @ xs"
proof (cases "\<exists>m d. e = Decoded m (Some d)")
  case True
  then show ?thesis using step_decoded_log by auto
next
  case False
  then show ?thesis using step_other_log [of e fadd st] by auto
qed

lemma sourceStarts_run: "\<exists>xs. sourceStarts (run fadd evs st) = sourceStarts st @ xs"
proof (induction evs arbitrary: st)
  case Nil
  show ?case by simp
next
  case (Cons e es)
  obtain xs where "sourceStarts (step fadd e st) = sourceStarts st @ xs"
    using sourceStarts_step by blast
  moreover obtain ys where
    "sourceStarts (run fadd es (step fadd e st)) = sourceStarts (step fadd e st) @ ys"
    using Cons.IH by blast
  ultimately show ?case by simp
qed

lemma sourceStarts_scheduled:
  "sourceStarts (run fadd evs st) = sourceStarts st @ scheduled fadd evs st"
  using sourceStarts_run [of fadd evs st] by (auto simp: scheduled_def)

lemma scheduled_Nil [simp]: "scheduled fadd [] st = []"
  by (simp add: scheduled_def)

lemma scheduled_Cons:
  "scheduled fadd (e # es) st = scheduled fadd [e] st @ scheduled fadd es (step fadd e st)"
proof -
  obtain xs where xs: "sourceStarts (step fadd e st) = sourceStarts st @ xs"
    using sourceStarts_step by blast
  obtain ys where ys:
    "sourceStarts (run fadd es (step fadd e st)) = sourceStarts (step fadd e st) @ ys"
    using sourceStarts_run by blast
  have "scheduled fadd [e] st = xs" by (simp add: scheduled_def xs)
  moreover have "scheduled fadd es (step fadd e st) = ys" by (simp add: scheduled_def ys)
  moreover have "scheduled fadd (e # es) st = xs @ ys" by (simp add: scheduled_def ys xs)
  ultimately show ?thesis by simp
qed

lemma scheduled_append:
  "scheduled fadd (xs @ ys) st = scheduled fadd xs st @ scheduled fadd ys (run fadd xs st)"
proof (induction xs arbitrary: st)
  case Nil
  show ?case by simp
next
  case (Cons e es)
  have "scheduled fadd ((e # es) @ ys) st
      = scheduled fadd [e] st @ scheduled fadd (es @ ys) (step fadd e st)"
    by (simp only: append_Cons scheduled_Cons [of fadd e "es @ ys" st])
  also have "\<dots> = scheduled fadd [e] st @ scheduled fadd es (step fadd e st)
      @ scheduled fadd ys (run fadd es (step fadd e st))"
    by (simp only: Cons.IH)
  also have "\<dots> = scheduled fadd (e # es) st @ scheduled fadd ys (run fadd (e # es) st)"
    by (simp only: scheduled_Cons [of fadd e es st] append_assoc run.simps)
  finally show ?case .
qed

lemma scheduled_other: "(\<forall>m d. e \<noteq> Decoded m (Some d)) \<Longrightarrow> scheduled fadd [e] st = []"
  using step_other_log [of e fadd st] by (simp add: scheduled_def)

lemma scheduled_decoded:
  "scheduled fadd [Decoded m (Some d)] st = [(sourceCount st, nextStartTimeRef st, d)]"
  using step_decoded_log [of fadd m d st] by (simp add: scheduled_def)

lemma ordered_from_mono: "ordered_from fadd t xs \<Longrightarrow> t' \<le> t \<Longrightarrow> ordered_from fadd t' xs"
  by (cases xs) auto

lemma scheduled_durations: "map duration_of (scheduled fadd evs st) = decoded_durations evs"
proof (induction evs arbitrary: st)
  case Nil
  show ?case by simp
next
  case (Cons e es)
  show ?case
  proof (cases "\<exists>m d. e = Decoded m (Some d)")
    case True
    then obtain m d where e: "e = Decoded m (Some d)" by blast
    show ?thesis
      using Cons.IH [of "step fadd e st"] scheduled_Cons [of fadd e es st]
        scheduled_decoded [of fadd m d st] e
      by (simp add: duration_of_def)
  next
    case False
    then have ne: "\<forall>m d. e \<noteq> Decoded m (Some d)" by blast
    show ?thesis
      using Cons.IH [of "step fadd e st"] scheduled_Cons [of fadd e es st]
        scheduled_other [OF ne, of fadd st] decoded_durations_other [OF ne, of es]
      by simp
  qed
qed

lemma run_ordered:
  "unflushed fadd evs st \<Longrightarrow> ordered_from fadd (nextStartTimeRef st) (scheduled fadd evs st)"
proof (induction evs arbitrary: st)
  case Nil
  show ?case by simp
next
  case (Cons e es)
  have nf: "\<not> flushes e st" and uf: "unflushed fadd es (step fadd e st)"
    using Cons.prems by simp_all
  note IH = Cons.IH [OF uf]
  show ?case
  proof (cases "\<exists>m d. e = Decoded m (Some d)")
    case True
    then obtain m d where e: "e = Decoded m (Some d)" by blast
    have "nextStartTimeRef (step fadd e st) = fadd (nextStartTimeRef st) d"
      using step_decoded_clock nf e by simp
    with IH show ?thesis
      using scheduled_Cons [of fadd e es st] scheduled_decoded [of fadd m d st] e by simp
  next
    case False
    then have ne: "\<forall>m d. e \<noteq> Decoded m (Some d)" by blast
    have "nextStartTimeRef st \<le> nextStartTimeRef (step fadd e st)"
      using step_other_clock [OF nf ne] .
    with IH have "ordered_from fadd (nextStartTimeRef st) (scheduled fadd es (step fadd e st))"
      by (rule ordered_from_mono)
    then show ?thesis
      using scheduled_Cons [of fadd e es st] scheduled_other [OF ne, of fadd st] by simp
  qed
qed

lemma run_chain:
  "unflushed fadd evs st \<Longrightarrow> in_time fadd evs st \<Longrightarrow>
   scheduled fadd evs st
     = chain_from fadd (sourceCount st) (nextStartTimeRef st) (decoded_durations evs)"
proof (induction evs arbitrary: st)
  case Nil
  then show ?case by simp
next
  case (Cons e es)
  have nf: "\<not> flushes e st" and uf: "unflushed fadd es (step fadd e st)"
    and it: "arrives_in_time e st" and its: "in_time fadd es (step fadd e st)"
    using Cons.prems by simp_all
  note IH = Cons.IH [OF uf its]
  show ?case
  proof (cases "\<exists>m d. e = Decoded m (Some d)")
    case True
    then obtain m d where e: "e = Decoded m (Some d)" by blast
    show ?thesis
      using step_decoded_log [of fadd m d st] step_decoded_clock [of m d st fadd] nf e IH
        scheduled_Cons [of fadd e es st] scheduled_decoded [of fadd m d st]
      by simp
  next
    case False
    then have ne: "\<forall>m d. e \<noteq> Decoded m (Some d)" by blast
    show ?thesis
      using step_other_log [OF ne, of fadd st] step_other_in_time [OF nf it ne, of fadd] IH
        decoded_durations_other [OF ne, of es] scheduled_Cons [of fadd e es st]
        scheduled_other [OF ne, of fadd st]
      by simp
  qed
qed

lemma ordered_from_nth:
  "ordered_from fadd t xs \<Longrightarrow> Suc n < length xs \<Longrightarrow>
   fadd (start_of (xs ! n)) (duration_of (xs ! n)) \<le> start_of (xs ! Suc n)"
proof (induction fadd t xs arbitrary: n rule: ordered_from.induct)
  case (1 fadd t)
  then show ?case by simp
next
  case (2 fadd t k s d xs)
  show ?case
  proof (cases n)
    case 0
    with "2.prems" show ?thesis
      by (cases xs) (auto simp: start_of_def duration_of_def)
  next
    case (Suc j)
    with "2.prems" "2.IH" [of j] show ?thesis by simp
  qed
qed

lemma chain_from_nth:
  "n < length ds \<Longrightarrow> start_of (chain_from fadd k t ds ! n) = foldl fadd t (take n ds)"
proof (induction ds arbitrary: k t n)
  case Nil
  then show ?case by simp
next
  case (Cons d ds)
  show ?case
  proof (cases n)
    case 0
    then show ?thesis by (simp add: start_of_def)
  next
    case (Suc j)
    with Cons.prems Cons.IH [of j "Suc k" "fadd t d"] show ?thesis by simp
  qed
qed

lemma chain_from_length [simp]: "length (chain_from fadd k t ds) = length ds"
  by (induction ds arbitrary: k t) auto

lemma example_connected_eq:
  "example_connected = \<lparr> sessionState = S_connected, messages = [], error = None,
     inputAudioCtxRef = True, outputAudioCtxRef = True, sourcesRef = {},
     nextStartTimeRef = 0, streamRef = Some 0, activeSessionRef = Some 0,
     currentInputRef = [], currentOutputRef = [],
     connects = 1, resolvedSessions = {0}, greetingThens = [], processors = {0},
     sourceCount = 0, sourceStarts = [],
     closeCalls = [], trackStops = [], sourceStops = {}, sentAudio = [], sentText = [] \<rparr>"
  by (simp add: example_connected_def App_init_def handler_defs truthy_def)

lemma playing_eq:
  "playing = example_connected\<lparr>sourcesRef := {0}, nextStartTimeRef := 1, sourceCount := 1,
     sourceStarts := [(0, 0, 1)]\<rparr>"
  by (simp add: playing_def example_connected_eq handler_defs example_defs Let_def)

section \<open>The playback scheduler\<close>

lemma chain_from_Suc_nth:
  assumes "Suc n < length ds"
  shows "start_of (chain_from fadd k t ds ! Suc n)
     = fadd (start_of (chain_from fadd k t ds ! n)) (ds ! n)"
proof -
  from assms have n: "n < length ds" by simp
  have "take (Suc n) ds = take n ds @ [ds ! n]"
    using n by (rule take_Suc_conv_app_nth)
  then have "foldl fadd t (take (Suc n) ds) = fadd (foldl fadd t (take n ds)) (ds ! n)"
    by simp
  with chain_from_nth [OF assms, of fadd k t] chain_from_nth [OF n, of fadd k t]
  show ?thesis by simp
qed

text \<open>
  C1, as stated, fails.  Two chunks of duration 1 are handled one after the other in a
  connected session; the first arrives at device time 0 and the second at device time 5,
  after the first has ended.  Line 154 raises the clock to the device time, so the second
  source is started at 5 and not at 0 + 1: there is a gap of 4.  (On these numbers the
  addition of doubles is exact.)
\<close>

theorem scheduler_gap_counterexample:
  "scheduled (+) [Message (example_env 0) audio_message, Decoded audio_message (Some 1),
                  Message (example_env 5) audio_message, Decoded audio_message (Some 1)]
     example_connected = [(0, 0, 1), (1, 5, 1)] \<and>
   start_of ((1, 5, 1) :: nat \<times> real \<times> real)
     \<noteq> start_of ((0, 0, 1) :: nat \<times> real \<times> real) + sum_list [1]"
  by (simp add: scheduled_def example_connected_eq handler_defs example_defs Let_def start_of_def)

text \<open>
  C1, amended.  Take any addition \<open>fadd\<close> of doubles and any run \<open>pre @ evs\<close> of handlers in
  which no flush is executed and in which no source is started during \<open>pre\<close>; arrivals
  and decoder completions may interleave in any way.  Then the sources started during the
  run have the decoded durations, in order of completion; each one starts at the end of the
  one before or later, the end being the start plus the duration as line 161 computes it
  (no overlap); and if every message that arrives during \<open>evs\<close> reads a device time that
  has not passed the clock, each source starts exactly at that end of the one before (no
  gap), so that the n-th source starts at the start of the first with the durations of the
  sources before it added to it one at a time, in this order, by \<open>fadd\<close>.  That value need
  not be the start of the first plus the exact sum of the durations.
\<close>

theorem scheduler_back_to_back:
  assumes pre: "decoded_durations pre = []"
    and uf: "unflushed fadd (pre @ evs) st"
  shows "map duration_of (scheduled fadd (pre @ evs) st) = decoded_durations evs \<and>
     (\<forall>n. Suc n < length (scheduled fadd (pre @ evs) st) \<longrightarrow>
        fadd (start_of (scheduled fadd (pre @ evs) st ! n))
             (duration_of (scheduled fadd (pre @ evs) st ! n))
          \<le> start_of (scheduled fadd (pre @ evs) st ! Suc n)) \<and>
     (in_time fadd evs (run fadd pre st) \<longrightarrow>
       (\<forall>n. Suc n < length (scheduled fadd (pre @ evs) st) \<longrightarrow>
          start_of (scheduled fadd (pre @ evs) st ! Suc n) =
            fadd (start_of (scheduled fadd (pre @ evs) st ! n))
                 (duration_of (scheduled fadd (pre @ evs) st ! n))) \<and>
       (\<forall>n < length (scheduled fadd (pre @ evs) st).
          start_of (scheduled fadd (pre @ evs) st ! n) =
            foldl fadd (start_of (scheduled fadd (pre @ evs) st ! 0))
              (take n (decoded_durations evs))))"
proof (intro conjI allI impI)
  show d: "map duration_of (scheduled fadd (pre @ evs) st) = decoded_durations evs"
    using pre by (simp add: scheduled_durations decoded_durations_append)
  {
    fix n
    assume "Suc n < length (scheduled fadd (pre @ evs) st)"
    with run_ordered [OF uf] ordered_from_nth
    show "fadd (start_of (scheduled fadd (pre @ evs) st ! n))
               (duration_of (scheduled fadd (pre @ evs) st ! n))
            \<le> start_of (scheduled fadd (pre @ evs) st ! Suc n)"
      by blast
  }
  assume it: "in_time fadd evs (run fadd pre st)"
  have "map duration_of (scheduled fadd pre st) = []"
    using pre by (simp only: scheduled_durations)
  then have pre_nil: "scheduled fadd pre st = []" by simp
  have uf': "unflushed fadd evs (run fadd pre st)"
    using uf by (induction pre arbitrary: st) auto
  have eq: "scheduled fadd (pre @ evs) st =
      chain_from fadd (sourceCount (run fadd pre st)) (nextStartTimeRef (run fadd pre st))
        (decoded_durations evs)"
    using run_chain [OF uf' it] pre_nil by (simp add: scheduled_append)
  {
    fix n
    assume n: "Suc n < length (scheduled fadd (pre @ evs) st)"
    then have n': "Suc n < length (decoded_durations evs)" by (simp add: eq)
    then have "n < length (scheduled fadd (pre @ evs) st)" by (simp add: eq)
    then have "duration_of (scheduled fadd (pre @ evs) st ! n) = decoded_durations evs ! n"
      using d by (metis nth_map)
    with chain_from_Suc_nth [OF n']
    show "start_of (scheduled fadd (pre @ evs) st ! Suc n) =
            fadd (start_of (scheduled fadd (pre @ evs) st ! n))
                 (duration_of (scheduled fadd (pre @ evs) st ! n))"
      by (simp add: eq)
  }
  {
    fix n
    assume n: "n < length (scheduled fadd (pre @ evs) st)"
    then have n': "n < length (decoded_durations evs)" by (simp add: eq)
    then have z: "0 < length (decoded_durations evs)" by auto
    show "start_of (scheduled fadd (pre @ evs) st ! n) =
            foldl fadd (start_of (scheduled fadd (pre @ evs) st ! 0))
              (take n (decoded_durations evs))"
      using chain_from_nth [OF n'] chain_from_nth [OF z] by (simp add: eq)
  }
qed

lemma example_stream_run:
  "decoded_durations example_pre = [] \<and>
   unflushed (+) (example_pre @ example_stream) example_connected \<and>
   in_time (+) example_stream (run (+) example_pre example_connected) \<and>
   scheduled (+) (example_pre @ example_stream) example_connected
     = [(0, 3, 1), (1, 4, 1/2), (2, 9/2, 2)]"
  by (simp add: example_pre_def example_stream_def scheduled_def example_connected_eq
      handler_defs example_defs Let_def)

theorem scheduler_back_to_back_witness:
  "decoded_durations example_pre = [] \<and>
   unflushed (+) (example_pre @ example_stream) example_connected \<and>
   in_time (+) example_stream (run (+) example_pre example_connected) \<and>
   scheduled (+) (example_pre @ example_stream) example_connected
     = [(0, 3, 1), (1, 4, 1/2), (2, 9/2, 2)] \<and>
   start_of (scheduled (+) (example_pre @ example_stream) example_connected ! 2) =
     foldl (+) (start_of (scheduled (+) (example_pre @ example_stream) example_connected ! 0))
       (take 2 (decoded_durations example_stream))"
proof -
  have a: "decoded_durations example_pre = []"
    and b: "unflushed (+) (example_pre @ example_stream) example_connected"
    and c: "in_time (+) example_stream (run (+) example_pre example_connected)"
    and d: "scheduled (+) (example_pre @ example_stream) example_connected
        = [(0, 3, 1), (1, 4, 1/2), (2, 9/2, 2)]"
    using example_stream_run by simp_all
  have "2 < length (scheduled (+) (example_pre @ example_stream) example_connected)"
    by (simp add: d)
  with scheduler_back_to_back [OF a b] c a b d show ?thesis by blast
qed

section \<open>The transcript assembler\<close>

lemma onmessage_resume_transcript:
  "messages (onmessage_resume fadd m dec st) = messages st \<and>
   currentInputRef (onmessage_resume fadd m dec st) = currentInputRef st \<and>
   currentOutputRef (onmessage_resume fadd m dec st) = currentOutputRef st"
  by (simp add: onmessage_resume_def onmessage_interrupted_def Let_def split: option.split)

lemma onmessage_transcript:
  "messages (onmessage fadd env m dec st)
     = messages (onmessage_turnComplete env m (onmessage_transcriptions m st)) \<and>
   currentInputRef (onmessage fadd env m dec st)
     = currentInputRef (onmessage_turnComplete env m (onmessage_transcriptions m st)) \<and>
   currentOutputRef (onmessage fadd env m dec st)
     = currentOutputRef (onmessage_turnComplete env m (onmessage_transcriptions m st))"
  by (simp add: onmessage_def onmessage_resume_transcript onmessage_begin_def Let_def
      onmessage_interrupted_def)

lemma messages_transcriptions [simp]: "messages (onmessage_transcriptions m st) = messages st"
  by (simp add: onmessage_transcriptions_def split: option.split)

lemma transcriptions_deltas:
  "currentInputRef (onmessage_transcriptions m st) = currentInputRef st @ input_delta m \<and>
   currentOutputRef (onmessage_transcriptions m st) = currentOutputRef st @ output_delta m"
  by (simp add: onmessage_transcriptions_def input_delta_def output_delta_def
      split: option.split)

lemma hello_state_acc:
  "currentInputRef hello_state = js ''Hello '' \<and> currentOutputRef hello_state = [] \<and>
   messages hello_state = []"
  by (simp add: hello_state_def example_connected_eq handler_defs example_defs Let_def)

text \<open>
  C2.  On a message with \<open>turnComplete\<close> the handler trims both accumulators (as they
  are after the transcription of the same message, if any, has been appended), appends
  to the log one Turn for each trimmed text that is not empty, the user's before the
  model's, each with the next value of \<open>crypto.randomUUID()\<close> as id and the next value
  of \<open>Date.now()\<close> as timestamp (so the Turns of one event have different ids when two
  successive calls of the generator return different values), appends nothing when both
  are empty, and empties both accumulators in every case.
\<close>

theorem turnComplete_emits_turns:
  assumes "turnComplete m"
  shows "let u = trim (currentInputRef (onmessage_transcriptions m st));
             v = trim (currentOutputRef (onmessage_transcriptions m st));
             st' = onmessage fadd env m dec st;
             new = emitted st st'
         in messages st' = messages st @ new \<and>
            map (\<lambda>t. (msg_role t, msg_text t)) new =
              (if u \<noteq> [] then [(user, u)] else []) @ (if v \<noteq> [] then [(model, v)] else []) \<and>
            map msg_id new = map (randomUUID env) [0..<length new] \<and>
            map msg_timestamp new = map (DateNow env) [0..<length new] \<and>
            (randomUUID env 0 \<noteq> randomUUID env 1 \<longrightarrow> distinct (map msg_id new)) \<and>
            (u = [] \<and> v = [] \<longrightarrow> messages st' = messages st) \<and>
            currentInputRef st' = [] \<and> currentOutputRef st' = []"
  using assms
  by (simp add: Let_def emitted_def onmessage_transcript onmessage_turnComplete_def)

theorem turnComplete_emits_turns_witness:
  "turnComplete turn_message \<and>
   messages (onmessage (+) (example_env 0) turn_message None hello_state) =
     [\<lparr>msg_id = [0x75], msg_role = user, msg_text = js ''Hello'', msg_timestamp = 1700000000000\<rparr>] \<and>
   currentInputRef (onmessage (+) (example_env 0) turn_message None hello_state) = [] \<and>
   currentOutputRef (onmessage (+) (example_env 0) turn_message None hello_state) = [] \<and>
   messages (onmessage (+) (example_env 0) turn_message None example_connected) = []"
proof -
  have t: "turnComplete turn_message" by (simp add: turn_message_def)
  have u: "trim (currentInputRef (onmessage_transcriptions turn_message hello_state)) = js ''Hello''"
    by (simp add: onmessage_transcriptions_def turn_message_def hello_state_acc trim_def
        isWhiteSpace_def js_def)
  have v: "trim (currentOutputRef (onmessage_transcriptions turn_message hello_state)) = []"
    by (simp add: onmessage_transcriptions_def turn_message_def hello_state_acc trim_def)
  have u0: "trim (currentInputRef (onmessage_transcriptions turn_message example_connected)) = []"
    by (simp add: onmessage_transcriptions_def turn_message_def example_connected_eq trim_def)
  have v0: "trim (currentOutputRef (onmessage_transcriptions turn_message example_connected)) = []"
    by (simp add: onmessage_transcriptions_def turn_message_def example_connected_eq trim_def)
  have h: "js ''Hello'' \<noteq> []" by (simp add: js_def)
  have m0: "messages example_connected = []" by (simp add: example_connected_eq)
  from turnComplete_emits_turns [OF t, of hello_state "(+)" "example_env 0" None]
  have a: "messages (onmessage (+) (example_env 0) turn_message None hello_state) =
        emitted hello_state (onmessage (+) (example_env 0) turn_message None hello_state)"
    and b: "map (\<lambda>t. (msg_role t, msg_text t))
          (emitted hello_state (onmessage (+) (example_env 0) turn_message None hello_state))
        = [(user, js ''Hello'')]"
    and c: "map msg_id
          (emitted hello_state (onmessage (+) (example_env 0) turn_message None hello_state))
        = map (randomUUID (example_env 0))
            [0..<length (emitted hello_state
                (onmessage (+) (example_env 0) turn_message None hello_state))]"
    and d: "map msg_timestamp
          (emitted hello_state (onmessage (+) (example_env 0) turn_message None hello_state))
        = map (DateNow (example_env 0))
            [0..<length (emitted hello_state
                (onmessage (+) (example_env 0) turn_message None hello_state))]"
    and e: "currentInputRef (onmessage (+) (example_env 0) turn_message None hello_state) = []"
    and f: "currentOutputRef (onmessage (+) (example_env 0) turn_message None hello_state) = []"
    by (simp_all add: Let_def u v h hello_state_acc)
  from b obtain x where
    x: "emitted hello_state (onmessage (+) (example_env 0) turn_message None hello_state) = [x]"
    and xr: "msg_role x = user" and xt: "msg_text x = js ''Hello''"
    by auto
  from c d x have xi: "msg_id x = [0x75]" and xs: "msg_timestamp x = 1700000000000"
    by (simp_all add: example_env_def)
  have "x = \<lparr>msg_id = [0x75], msg_role = user, msg_text = js ''Hello'',
             msg_timestamp = 1700000000000\<rparr>"
    using xr xt xi xs by (cases x) simp
  moreover from turnComplete_emits_turns [OF t, of example_connected "(+)" "example_env 0" None]
  have "messages (onmessage (+) (example_env 0) turn_message None example_connected) = []"
    by (simp add: Let_def u0 v0 m0)
  ultimately show ?thesis using t a x e f by simp
qed

text \<open>
  C3, as stated, fails: lines 130-134 are an \<open>if ... else if\<close>.  On a message that
  carries both transcriptions only the output text is appended; the input text is
  dropped and the user accumulator stays as it was.
\<close>

theorem transcription_both_counterexample:
  "outputTranscription both_message = Some (Some (js ''Hi'')) \<and>
   inputTranscription both_message = Some (Some (js ''yo'')) \<and>
   currentOutputRef (onmessage (+) (example_env 0) both_message None example_connected)
     = currentOutputRef example_connected @ js ''Hi'' \<and>
   currentInputRef (onmessage (+) (example_env 0) both_message None example_connected)
     = currentInputRef example_connected \<and>
   currentInputRef (onmessage (+) (example_env 0) both_message None example_connected)
     \<noteq> currentInputRef example_connected @ js ''yo''"
  by (simp add: onmessage_def example_connected_eq handler_defs example_defs Let_def)

text \<open>
  C3, amended.  For every message and every state: a message that carries an output
  transcription appends the \<open>text\<close> of it (the string \<open>undefined\<close> when the transcription
  has no \<open>text\<close>) to the model accumulator and leaves the user accumulator alone, whether
  or not it also carries an input transcription; the \<open>text\<close> of an input transcription is
  appended to the user accumulator only when the message carries no output
  transcription.  This is how the handler leaves the accumulators when the message has no
  \<open>turnComplete\<close>; when it has, the Turns it emits are those of the accumulators so
  extended, trimmed, and the accumulators are left empty.
\<close>

theorem transcription_delta_appended:
  "let out' = (case outputTranscription m of
                 Some tr \<Rightarrow> currentOutputRef st @ to_string tr
               | None \<Rightarrow> currentOutputRef st);
       in' = (case outputTranscription m of
                Some tr \<Rightarrow> currentInputRef st
              | None \<Rightarrow>
                 (case inputTranscription m of
                    Some tr \<Rightarrow> currentInputRef st @ to_string tr
                  | None \<Rightarrow> currentInputRef st));
       st' = onmessage fadd env m dec st
   in if turnComplete m then
        map (\<lambda>t. (msg_role t, msg_text t)) (emitted st st') =
          (if trim in' \<noteq> [] then [(user, trim in')] else [])
          @ (if trim out' \<noteq> [] then [(model, trim out')] else []) \<and>
        currentInputRef st' = [] \<and> currentOutputRef st' = []
      else currentOutputRef st' = out' \<and> currentInputRef st' = in'"
  by (simp add: Let_def emitted_def onmessage_transcript onmessage_turnComplete_def
      onmessage_transcriptions_def split: option.split)

theorem transcription_delta_appended_witness:
  "currentInputRef (onmessage (+) (example_env 0) (input_message (js ''yo'')) None hello_state)
     = js ''Hello yo'' \<and>
   currentOutputRef (onmessage (+) (example_env 0) (input_message (js ''yo'')) None hello_state)
     = [] \<and>
   map (\<lambda>t. (msg_role t, msg_text t))
     (emitted hello_state (onmessage (+) (example_env 0) textless_turn_message None hello_state))
     = [(user, js ''Hello''), (model, js ''undefined'')]"
proof -
  have t: "\<not> turnComplete (input_message (js ''yo''))"
    "outputTranscription (input_message (js ''yo'')) = None"
    "inputTranscription (input_message (js ''yo'')) = Some (Some (js ''yo''))"
    by (simp_all add: input_message_def)
  have t': "turnComplete textless_turn_message"
    "outputTranscription textless_turn_message = Some None"
    by (simp_all add: textless_turn_message_def)
  have cat: "js ''Hello '' @ js ''yo'' = js ''Hello yo''" by (simp add: js_def)
  have u: "trim (js ''Hello '') = js ''Hello''" "trim (js ''undefined'') = js ''undefined''"
    "js ''Hello'' \<noteq> []" "js ''undefined'' \<noteq> []"
    by (simp_all add: trim_def isWhiteSpace_def js_def)
  from transcription_delta_appended [where m = "input_message (js ''yo'')" and st = hello_state
      and fadd = "(+)" and env = "example_env 0" and dec = None]
  have 1: "currentInputRef
        (onmessage (+) (example_env 0) (input_message (js ''yo'')) None hello_state)
      = js ''Hello yo''"
    and 2: "currentOutputRef
        (onmessage (+) (example_env 0) (input_message (js ''yo'')) None hello_state) = []"
    by (simp_all add: Let_def t hello_state_acc to_string_def cat)
  from transcription_delta_appended [where m = textless_turn_message and st = hello_state
      and fadd = "(+)" and env = "example_env 0" and dec = None]
  have 3: "map (\<lambda>t. (msg_role t, msg_text t))
     (emitted hello_state (onmessage (+) (example_env 0) textless_turn_message None hello_state))
     = [(user, js ''Hello''), (model, js ''undefined'')]"
    by (simp add: Let_def t' hello_state_acc to_string_def u)
  from 1 2 3 show ?thesis by blast
qed

section \<open>Stopping\<close>

lemma step_close_count:
  "count_list (closeCalls (step fadd e st)) s
     + (if activeSessionRef (step fadd e st) = Some s then 1 else 0)
   \<le> count_list (closeCalls st) s + (if activeSessionRef st = Some s then 1 else 0)
     + (if e = Resolved s then 1 else 0)"
  by (cases e) (auto simp: handler_defs Let_def split: option.split start_outcome.split)

lemma run_close_count:
  "count_list (closeCalls (run fadd evs st)) s
     + (if activeSessionRef (run fadd evs st) = Some s then 1 else 0)
   \<le> count_list (closeCalls st) s + (if activeSessionRef st = Some s then 1 else 0)
     + count_list evs (Resolved s)"
proof (induction evs arbitrary: st)
  case Nil
  show ?case by simp
next
  case (Cons e es)
  from Cons.IH [of "step fadd e st"] step_close_count [of fadd e st s] show ?case by auto
qed

text \<open>
  C6.  \<open>stopSession\<close> is a total function of the state: it has no failing branch.  From
  every state it leaves the state \<open>disconnected\<close>; a second call right after the first
  changes nothing at all, so the two calls together call \<open>close()\<close> once when a session
  handle was stored and never otherwise; before any session exists (\<open>App_init\<close>) it
  changes nothing.  Over any run of handlers from the initial state, \<open>close()\<close> is called
  on a session at most as often as the promise of that session has resolved (line
  180), that is at most once.
\<close>

theorem stopSession_idempotent:
  "sessionState (stopSession st) = S_disconnected \<and>
   sessionState (stopSession (stopSession st)) = S_disconnected \<and>
   stopSession (stopSession st) = stopSession st \<and>
   closeCalls (stopSession (stopSession st)) =
     closeCalls st @ (case activeSessionRef st of None \<Rightarrow> [] | Some s \<Rightarrow> [s]) \<and>
   stopSession App_init = App_init \<and>
   count_list (closeCalls (run fadd evs App_init)) s \<le> count_list evs (Resolved s) \<and>
   (count_list evs (Resolved s) \<le> 1 \<longrightarrow> count_list (closeCalls (run fadd evs App_init)) s \<le> 1)"
proof -
  have "count_list (closeCalls (run fadd evs App_init)) s \<le> count_list evs (Resolved s)"
    using run_close_count [of fadd evs App_init s] by (simp add: App_init_def)
  then show ?thesis
    by (simp add: stopSession_def Let_def App_init_def split: option.split)
qed

theorem stopSession_idempotent_witness:
  "closeCalls (stopSession (stopSession example_connected)) = [0] \<and>
   sessionState (stopSession (stopSession example_connected)) = S_disconnected \<and>
   closeCalls (run (+) [MainButton None, StartResume (Granted 0), OnOpen 0 None, Resolved 0,
       Stop, Stop, OnClose] App_init) = [0]"
proof -
  have r: "closeCalls (run (+) [MainButton None, StartResume (Granted 0), OnOpen 0 None,
       Resolved 0, Stop, Stop, OnClose] App_init) = [0]"
    by (simp add: App_init_def handler_defs truthy_def)
  have e: "closeCalls example_connected = []" "activeSessionRef example_connected = Some 0"
    by (simp_all add: example_connected_eq)
  from stopSession_idempotent [of example_connected "(+)" "[]" 0]
  have a: "closeCalls (stopSession (stopSession example_connected)) =
      closeCalls example_connected @
        (case activeSessionRef example_connected of None \<Rightarrow> [] | Some s \<Rightarrow> [s])"
    and b: "sessionState (stopSession (stopSession example_connected)) = S_disconnected"
    by blast+
  show ?thesis using r by (simp add: a b e)
qed

lemma stopSession_effect:
  "closeCalls (stopSession st)
     = closeCalls st @ (case activeSessionRef st of None \<Rightarrow> [] | Some s \<Rightarrow> [s]) \<and>
   activeSessionRef (stopSession st) = None \<and>
   trackStops (stopSession st)
     = trackStops st @ (case streamRef st of None \<Rightarrow> [] | Some t \<Rightarrow> [t]) \<and>
   streamRef (stopSession st) = None \<and>
   sourceStops (stopSession st) = sourceStops st \<union> sourcesRef st \<and>
   sourcesRef (stopSession st) = {} \<and>
   nextStartTimeRef (stopSession st) = 0 \<and>
   sessionState (stopSession st) = S_disconnected"
  by (simp add: stopSession_def Let_def split: option.split)

lemma stopSession_frame:
  "messages (stopSession st) = messages st \<and>
   currentInputRef (stopSession st) = currentInputRef st \<and>
   currentOutputRef (stopSession st) = currentOutputRef st \<and>
   error (stopSession st) = error st \<and>
   inputAudioCtxRef (stopSession st) = inputAudioCtxRef st \<and>
   outputAudioCtxRef (stopSession st) = outputAudioCtxRef st \<and>
   connects (stopSession st) = connects st \<and>
   resolvedSessions (stopSession st) = resolvedSessions st \<and>
   greetingThens (stopSession st) = greetingThens st \<and>
   processors (stopSession st) = processors st \<and>
   sourceCount (stopSession st) = sourceCount st \<and>
   sourceStarts (stopSession st) = sourceStarts st \<and>
   sentAudio (stopSession st) = sentAudio st \<and>
   sentText (stopSession st) = sentText st"
  by (simp add: stopSession_def Let_def split: option.split)

text \<open>
  C9.  \<open>onerror\<close> writes its message into the one \<open>error\<close> cell, whatever the cell held
  before, and then performs the full stop: it calls \<open>close()\<close> on the stored session
  handle, if there is one, and forgets it; stops the tracks of the stored microphone stream,
  if there is one, and forgets it; calls \<open>stop()\<close> on every active source and empties the
  active set; sets the clock to 0 and the state to \<open>disconnected\<close>.  It does not call
  \<open>ai.live.connect\<close> and leaves the log and the accumulators alone.  The first statements
  of the next \<open>startSession\<close> empty the cell, also when the start comes from one of the
  controls; if that start fails, the cell holds the new error only.
\<close>

theorem onerror_records_and_stops:
  "error (onerror st) = Some lost_focus \<and>
   closeCalls (onerror st)
     = closeCalls st @ (case activeSessionRef st of None \<Rightarrow> [] | Some s \<Rightarrow> [s]) \<and>
   activeSessionRef (onerror st) = None \<and>
   trackStops (onerror st)
     = trackStops st @ (case streamRef st of None \<Rightarrow> [] | Some t \<Rightarrow> [t]) \<and>
   streamRef (onerror st) = None \<and>
   sourceStops (onerror st) = sourceStops st \<union> sourcesRef st \<and>
   sourcesRef (onerror st) = {} \<and>
   nextStartTimeRef (onerror st) = 0 \<and>
   sessionState (onerror st) = S_disconnected \<and>
   connects (onerror st) = connects st \<and>
   messages (onerror st) = messages st \<and>
   currentInputRef (onerror st) = currentInputRef st \<and>
   currentOutputRef (onerror st) = currentOutputRef st \<and>
   error (startSession_begin None (onerror st)) = None \<and>
   error (mainButton_onClick None (onerror st)) = None \<and>
   error (starterPrompt_onClick None (onerror st)) = None \<and>
   error (startSession_begin (Some msg) (onerror st))
     = Some (case msg of Some t \<Rightarrow> if t \<noteq> [] then t else could_not_reach
                      | None \<Rightarrow> could_not_reach)"
  by (simp add: handler_defs Let_def split: option.split)

theorem onerror_records_and_stops_witness:
  "error (onerror playing) = Some lost_focus \<and>
   closeCalls (onerror playing) = [0] \<and>
   trackStops (onerror playing) = [0] \<and>
   sourceStops (onerror playing) = {0} \<and>
   sourcesRef (onerror playing) = {} \<and>
   nextStartTimeRef playing = 1 \<and>
   nextStartTimeRef (onerror playing) = 0 \<and>
   sessionState (onerror playing) = S_disconnected \<and>
   connects (onerror playing) = 1 \<and>
   error (mainButton_onClick None (onerror playing)) = None"
proof -
  have p: "closeCalls playing = []" "activeSessionRef playing = Some 0"
    "trackStops playing = []" "streamRef playing = Some 0"
    "sourceStops playing = {}" "sourcesRef playing = {0}" "connects playing = 1"
    "nextStartTimeRef playing = 1"
    by (simp_all add: playing_eq example_connected_eq)
  from onerror_records_and_stops [of playing None]
  have "error (onerror playing) = Some lost_focus"
    and "closeCalls (onerror playing)
      = closeCalls playing @ (case activeSessionRef playing of None \<Rightarrow> [] | Some s \<Rightarrow> [s])"
    and "trackStops (onerror playing)
      = trackStops playing @ (case streamRef playing of None \<Rightarrow> [] | Some t \<Rightarrow> [t])"
    and "sourceStops (onerror playing) = sourceStops playing \<union> sourcesRef playing"
    and "sourcesRef (onerror playing) = {}"
    and "nextStartTimeRef (onerror playing) = 0"
    and "sessionState (onerror playing) = S_disconnected"
    and "connects (onerror playing) = connects playing"
    and "error (mainButton_onClick None (onerror playing)) = None"
    by blast+
  then show ?thesis by (simp add: p)
qed

lemma step_transcript:
  "\<not> ends_turn e \<Longrightarrow>
     currentInputRef (step fadd e st) = currentInputRef st @ input_deltas [e] \<and>
     currentOutputRef (step fadd e st) = currentOutputRef st @ output_deltas [e]"
proof (cases e)
  case (Message env m)
  assume "\<not> ends_turn e"
  with Message have "\<not> turnComplete m" by simp
  with Message show ?thesis
    by (simp add: onmessage_begin_def Let_def onmessage_turnComplete_def
        onmessage_interrupted_def transcriptions_deltas)
qed (auto simp: handler_defs Let_def split: option.split start_outcome.split)

lemma deltas_Cons:
  "input_deltas (e # es) = input_deltas [e] @ input_deltas es \<and>
   output_deltas (e # es) = output_deltas [e] @ output_deltas es"
  by (cases e) simp_all

lemma run_transcript:
  "\<forall>e \<in> set evs. \<not> ends_turn e \<Longrightarrow>
     currentInputRef (run fadd evs st) = currentInputRef st @ input_deltas evs \<and>
     currentOutputRef (run fadd evs st) = currentOutputRef st @ output_deltas evs"
proof (induction evs arbitrary: st)
  case Nil
  show ?case by simp
next
  case (Cons e es)
  then have e: "\<not> ends_turn e" and es: "\<forall>e \<in> set es. \<not> ends_turn e" by simp_all
  from Cons.IH [OF es, of "step fadd e st"] step_transcript [OF e, of fadd st]
    deltas_Cons [of e es]
  show ?case by simp
qed

text \<open>
  C10.  \<open>stopSession\<close> leaves the transcript log, both accumulators and every other
  field but the session handle, the stream, the active sources, the clock and the session
  state as they were (and records its calls of \<open>close\<close>, \<open>track.stop\<close> and
  \<open>source.stop\<close>).  Take any run \<open>evs\<close> of handlers after the stop in which no message
  with \<open>turnComplete\<close> arrives: a new session may be started and open, audio and
  transcriptions may arrive.  Then the accumulators hold the text that was pending at the
  stop followed by what the messages of \<open>evs\<close> appended, and the first message with
  \<open>turnComplete\<close> commits it: the Turns it emits are those of the pending text followed
  by everything appended since, trimmed.
\<close>

theorem stopSession_keeps_transcript:
  assumes evs: "\<forall>e \<in> set evs. \<not> ends_turn e"
    and turn: "turnComplete m"
  shows "messages (stopSession st) = messages st \<and>
     currentInputRef (stopSession st) = currentInputRef st \<and>
     currentOutputRef (stopSession st) = currentOutputRef st \<and>
     error (stopSession st) = error st \<and>
     inputAudioCtxRef (stopSession st) = inputAudioCtxRef st \<and>
     outputAudioCtxRef (stopSession st) = outputAudioCtxRef st \<and>
     connects (stopSession st) = connects st \<and>
     resolvedSessions (stopSession st) = resolvedSessions st \<and>
     greetingThens (stopSession st) = greetingThens st \<and>
     processors (stopSession st) = processors st \<and>
     sourceCount (stopSession st) = sourceCount st \<and>
     sourceStarts (stopSession st) = sourceStarts st \<and>
     sentAudio (stopSession st) = sentAudio st \<and>
     sentText (stopSession st) = sentText st \<and>
     currentInputRef (run fadd evs (stopSession st)) = currentInputRef st @ input_deltas evs \<and>
     currentOutputRef (run fadd evs (stopSession st)) = currentOutputRef st @ output_deltas evs \<and>
     map (\<lambda>t. (msg_role t, msg_text t))
       (emitted (run fadd evs (stopSession st))
          (onmessage fadd env m dec (run fadd evs (stopSession st)))) =
       (if trim (currentInputRef st @ input_deltas evs @ input_delta m) \<noteq> [] then
          [(user, trim (currentInputRef st @ input_deltas evs @ input_delta m))] else [])
       @ (if trim (currentOutputRef st @ output_deltas evs @ output_delta m) \<noteq> [] then
            [(model, trim (currentOutputRef st @ output_deltas evs @ output_delta m))] else [])"
proof -
  note r = run_transcript [OF evs, of fadd "stopSession st"]
  note f = stopSession_frame [of st]
  note t = transcriptions_deltas [of m "run fadd evs (stopSession st)"]
  have "map (\<lambda>t. (msg_role t, msg_text t))
       (emitted (run fadd evs (stopSession st))
          (onmessage fadd env m dec (run fadd evs (stopSession st)))) =
       (if trim (currentInputRef (onmessage_transcriptions m (run fadd evs (stopSession st)))) \<noteq> []
        then [(user, trim (currentInputRef
                (onmessage_transcriptions m (run fadd evs (stopSession st)))))] else [])
       @ (if trim (currentOutputRef (onmessage_transcriptions m (run fadd evs (stopSession st)))) \<noteq> []
          then [(model, trim (currentOutputRef
                (onmessage_transcriptions m (run fadd evs (stopSession st)))))] else [])"
    using turn
    by (simp add: emitted_def onmessage_transcript onmessage_turnComplete_def Let_def)
  then show ?thesis
    using r f t by simp
qed

lemma next_session_deltas:
  "(\<forall>e \<in> set next_session. \<not> ends_turn e) \<and> input_deltas next_session = js ''there'' \<and>
   output_deltas next_session = []"
  by (simp add: next_session_def input_message_def audio_message_def input_delta_def
      output_delta_def to_string_def)

theorem stopSession_keeps_transcript_witness:
  "turnComplete turn_message \<and>
   input_deltas next_session = js ''there'' \<and>
   currentInputRef (stopSession hello_state) = js ''Hello '' \<and>
   currentInputRef (run (+) next_session (stopSession hello_state)) = js ''Hello there'' \<and>
   map (\<lambda>t. (msg_role t, msg_text t))
     (emitted (run (+) next_session (stopSession hello_state))
        (onmessage (+) (example_env 2) turn_message None
           (run (+) next_session (stopSession hello_state))))
     = [(user, js ''Hello there'')]"
proof -
  have a: "\<forall>e \<in> set next_session. \<not> ends_turn e"
    and i: "input_deltas next_session = js ''there''"
    and out: "output_deltas next_session = []"
    using next_session_deltas by simp_all
  have t: "turnComplete turn_message" by (simp add: turn_message_def)
  have d: "input_delta turn_message = []" "output_delta turn_message = []"
    by (simp_all add: turn_message_def input_delta_def output_delta_def)
  have h: "currentInputRef hello_state = js ''Hello ''" "currentOutputRef hello_state = []"
    by (simp_all add: hello_state_acc)
  have cat: "js ''Hello '' @ js ''there'' = js ''Hello there''" by (simp add: js_def)
  have u: "trim (js ''Hello there'') = js ''Hello there''" "js ''Hello there'' \<noteq> []"
    "trim [] = []"
    by (simp_all add: trim_def isWhiteSpace_def js_def)
  from stopSession_keeps_transcript [OF a t, of hello_state "(+)" "example_env 2" None]
  have 1: "currentInputRef (stopSession hello_state) = currentInputRef hello_state"
    and 2: "currentInputRef (run (+) next_session (stopSession hello_state))
        = currentInputRef hello_state @ input_deltas next_session"
    and 3: "map (\<lambda>t. (msg_role t, msg_text t))
       (emitted (run (+) next_session (stopSession hello_state))
          (onmessage (+) (example_env 2) turn_message None
             (run (+) next_session (stopSession hello_state)))) =
       (if trim (currentInputRef hello_state @ input_deltas next_session
                  @ input_delta turn_message) \<noteq> [] then
          [(user, trim (currentInputRef hello_state @ input_deltas next_session
                  @ input_delta turn_message))] else [])
       @ (if trim (currentOutputRef hello_state @ output_deltas next_session
                  @ output_delta turn_message) \<noteq> [] then
            [(model, trim (currentOutputRef hello_state @ output_deltas next_session
                  @ output_delta turn_message))] else [])"
    by blast+
  have c3: "map (\<lambda>t. (msg_role t, msg_text t))
       (emitted (run (+) next_session (stopSession hello_state))
          (onmessage (+) (example_env 2) turn_message None
             (run (+) next_session (stopSession hello_state))))
     = [(user, js ''Hello there'')]"
    by (simp only: 3 h i out d cat u append_Nil append_Nil2 if_True if_False simp_thms)
  from t i 1 2 c3 h cat show ?thesis by simp
qed

section \<open>The clock and the interruption\<close>

lemma fadd_grows_exact: "fadd_grows (+)"
  by (simp add: fadd_grows_def)

lemma flush_resets:
  "flushes e st \<Longrightarrow> nextStartTimeRef (step fadd e st) = 0 \<and> sourcesRef (step fadd e st) = {}"
  by (cases e) (auto simp: handler_defs Let_def split: option.split)

lemma step_clock_mono:
  assumes g: "fadd_grows fadd" and f: "\<not> flushes e st" and n: "nonneg_duration e"
  shows "nextStartTimeRef st \<le> nextStartTimeRef (step fadd e st)"
proof (cases "\<exists>m d. e = Decoded m (Some d)")
  case True
  then obtain m d where e: "e = Decoded m (Some d)" by blast
  with n have "0 \<le> d" by simp
  with g have "nextStartTimeRef st \<le> fadd (nextStartTimeRef st) d"
    by (simp add: fadd_grows_def)
  with e f step_decoded_clock [of m d st fadd] show ?thesis by simp
next
  case False
  with f step_other_clock [of e st fadd] show ?thesis by blast
qed

lemma step_clock_frame:
  "\<not> touches_clock e st \<Longrightarrow> nextStartTimeRef (step fadd e st) = nextStartTimeRef st"
  by (cases e) (auto simp: handler_defs Let_def split: option.split start_outcome.split)

text \<open>
  C7.  Let the addition of doubles never give less than its first argument when the
  second is not negative (\<open>fadd_grows\<close>; IEEE 754 addition rounds monotonically, so it
  does, and so does the exact addition).  Then every run of every handler either executes
  a flush (the interruption of lines 165-169, or \<open>stopSession\<close> called directly, by
  \<open>onerror\<close>, by \<open>onclose\<close> or by the main button), after which the clock is exactly 0, or
  leaves the clock where it was or later; and a run that executes none of the four
  assignments to \<open>nextStartTimeRef\<close> leaves it unchanged, so nothing but scheduling,
  interruption and \<open>stopSession\<close> moves it.
\<close>

theorem clock_monotone_or_reset:
  assumes "fadd_grows fadd" and "nonneg_duration e"
  shows "(flushes e st \<longrightarrow> nextStartTimeRef (step fadd e st) = 0) \<and>
         (\<not> flushes e st \<longrightarrow> nextStartTimeRef st \<le> nextStartTimeRef (step fadd e st)) \<and>
         (\<not> touches_clock e st \<longrightarrow> nextStartTimeRef (step fadd e st) = nextStartTimeRef st)"
  using assms flush_resets [of e st fadd] step_clock_mono [of fadd e st]
    step_clock_frame [of e st fadd]
  by blast

theorem clock_monotone_or_reset_witness:
  "fadd_grows (+) \<and>
   nonneg_duration (Decoded audio_message (Some 1)) \<and>
   \<not> flushes (Decoded audio_message (Some 1)) example_connected \<and>
   nextStartTimeRef example_connected
     \<le> nextStartTimeRef (step (+) (Decoded audio_message (Some 1)) example_connected) \<and>
   nextStartTimeRef (step (+) (Decoded audio_message (Some 1)) example_connected) = 1 \<and>
   flushes (Message (example_env 4) interrupt_message) playing \<and>
   nextStartTimeRef playing = 1 \<and>
   nextStartTimeRef (step (+) (Message (example_env 4) interrupt_message) playing) = 0 \<and>
   \<not> touches_clock (Ended 0) playing \<and>
   nextStartTimeRef (step (+) (Ended 0) playing) = 1"
proof -
  have p: "fadd_grows (+)" by (simp add: fadd_grows_def)
  have a: "nonneg_duration (Decoded audio_message (Some 1))" by simp
  have b: "\<not> flushes (Decoded audio_message (Some 1)) example_connected"
    by (simp add: audio_message_def)
  have c: "nextStartTimeRef (step (+) (Decoded audio_message (Some 1)) example_connected) = 1"
    by (simp add: example_connected_eq handler_defs audio_message_def Let_def)
  have d: "nonneg_duration (Message (example_env 4) interrupt_message)" by simp
  have e: "flushes (Message (example_env 4) interrupt_message) playing"
    by (simp add: interrupt_message_def awaits_decode_def truthy_def)
  have f: "nonneg_duration (Ended 0)" "\<not> touches_clock (Ended 0) playing" by simp_all
  have g: "nextStartTimeRef playing = 1"
    by (simp add: playing_eq)
  from clock_monotone_or_reset [OF p a, of example_connected] b
  have 1: "nextStartTimeRef example_connected
      \<le> nextStartTimeRef (step (+) (Decoded audio_message (Some 1)) example_connected)"
    by blast
  from clock_monotone_or_reset [OF p d, of playing] e
  have 2: "nextStartTimeRef (step (+) (Message (example_env 4) interrupt_message) playing) = 0"
    by blast
  from clock_monotone_or_reset [OF p f(1), of playing] f(2) g
  have 3: "nextStartTimeRef (step (+) (Ended 0) playing) = 1"
    by simp
  from p a b c e f(2) g 1 2 3 show ?thesis by blast
qed

lemma run_clock_mono:
  "fadd_grows fadd \<Longrightarrow> unflushed fadd evs st \<Longrightarrow> \<forall>e \<in> set evs. nonneg_duration e \<Longrightarrow>
   nextStartTimeRef st \<le> nextStartTimeRef (run fadd evs st)"
proof (induction evs arbitrary: st)
  case Nil
  show ?case by simp
next
  case (Cons e es)
  then have "\<not> flushes e st" "nonneg_duration e" "unflushed fadd es (step fadd e st)"
    "\<forall>e \<in> set es. nonneg_duration e"
    by simp_all
  with Cons.IH [of "step fadd e st"] step_clock_mono [of fadd e st] Cons.prems(1)
  show ?case by force
qed

lemma head_clock:
  "nextStartTimeRef (onmessage_turnComplete env m (onmessage_transcriptions m st)) = nextStartTimeRef st \<and>
   sourceCount (onmessage_turnComplete env m (onmessage_transcriptions m st)) = sourceCount st \<and>
   awaits_decode m (onmessage_turnComplete env m (onmessage_transcriptions m st)) = awaits_decode m st"
  by (simp add: onmessage_turnComplete_def onmessage_transcriptions_def awaits_decode_def Let_def
      split: option.split)

lemma arrival_raises_clock:
  "awaits_decode m st \<Longrightarrow>
     nextStartTimeRef (step fadd (Message env m) st) = max (nextStartTimeRef st) (currentTime env) \<and>
     sourceCount (step fadd (Message env m) st) = sourceCount st"
  by (simp add: onmessage_begin_def Let_def head_clock)

text \<open>
  What lines 154 and 165-169 achieve.  When the handler of a message with the
  \<open>interrupted\<close> flag reaches line 165, the active set is empty and the clock is 0 right
  after it; and a message with audio that arrives later, reading the device time
  \<open>currentTime env\<close>, is started at that device time or later if no flush runs while it
  is being decoded.
\<close>

lemma onmessage_interrupted_flush:
  assumes "interrupted m" and "dec \<noteq> None \<or> \<not> awaits_decode m st"
  shows "sourcesRef (onmessage fadd env m dec st) = {} \<and>
         nextStartTimeRef (onmessage fadd env m dec st) = 0"
proof (cases "awaits_decode m st")
  case True
  with assms obtain d where d: "dec = Some d" by auto
  have "flushes (Decoded m (Some d)) (onmessage_begin env m st)" using assms by simp
  from flush_resets [OF this, of fadd] True d show ?thesis by (simp add: onmessage_def)
next
  case False
  then have "flushes (Message env m) st" using assms by simp
  from flush_resets [OF this, of fadd] False show ?thesis by (simp add: onmessage_def)
qed

lemma later_arrival_starts_in_time:
  assumes g: "fadd_grows fadd"
    and a: "awaits_decode m st"
    and u: "unflushed fadd evs (step fadd (Message env m) st)"
    and n: "\<forall>e \<in> set evs. nonneg_duration e"
  shows "scheduled fadd [Decoded m (Some d)] (run fadd evs (step fadd (Message env m) st))
           = [(sourceCount (run fadd evs (step fadd (Message env m) st)),
               nextStartTimeRef (run fadd evs (step fadd (Message env m) st)), d)] \<and>
         currentTime env \<le> nextStartTimeRef (run fadd evs (step fadd (Message env m) st))"
proof -
  note c = arrival_raises_clock [OF a, of fadd env]
  have "nextStartTimeRef (step fadd (Message env m) st)
      \<le> nextStartTimeRef (run fadd evs (step fadd (Message env m) st))"
    using run_clock_mono [OF g u n] .
  with c have "currentTime env \<le> nextStartTimeRef (run fadd evs (step fadd (Message env m) st))"
    by simp
  then show ?thesis by (simp add: scheduled_decoded)
qed

lemma interrupted_inflight_eq:
  "interrupted_inflight = playing\<lparr>sourcesRef := {}, nextStartTimeRef := 0, sourceStops := {0}\<rparr>"
  by (simp add: interrupted_inflight_def playing_eq example_connected_eq handler_defs
      example_defs Let_def)

text \<open>
  C4.  The claim fails for an item that is being decoded when the interruption arrives.
  In \<open>playing\<close> source 0 plays and the clock is 1.  A message with audio arrives at
  device time 3: line 154 raises the clock to 3 and line 155 awaits the decoder.  A
  message with the \<open>interrupted\<close> flag arrives: lines 165-169 stop source 0, empty the
  active set and set the clock to 0 (\<open>interrupted_inflight\<close>).  Then the decoder
  completes, and lines 156-162 go on without a look at the device time: the source is
  started at the clock, 0, which the device time has passed, and it is added to the
  active set, so audio of the interrupted response plays after the interruption.

  A second case: a message that carries the \<open>interrupted\<close> flag together with audio that
  the decoder rejects.  The exception leaves the handler on line 155, lines 165-169 are
  not reached: source 0 keeps playing and the clock is not reset.
\<close>

theorem inflight_item_after_flush:
  "sourcesRef playing = {0} \<and> nextStartTimeRef playing = 1 \<and>
   nextStartTimeRef (step (+) (Message (example_env 3) audio_message) playing) = 3 \<and>
   sourcesRef interrupted_inflight = {} \<and>
   nextStartTimeRef interrupted_inflight = 0 \<and>
   sourceStops interrupted_inflight = {0} \<and>
   scheduled (+) [Decoded audio_message (Some 1)] interrupted_inflight = [(1, 0, 1)] \<and>
   sourcesRef (step (+) (Decoded audio_message (Some 1)) interrupted_inflight) = {1} \<and>
   sourceStops (step (+) (Decoded audio_message (Some 1)) interrupted_inflight) = {0} \<and>
   interrupted interrupt_audio_message \<and>
   sourcesRef (onmessage (+) (example_env 3) interrupt_audio_message None playing) = {0} \<and>
   sourceStops (onmessage (+) (example_env 3) interrupt_audio_message None playing) = {} \<and>
   nextStartTimeRef (onmessage (+) (example_env 3) interrupt_audio_message None playing) = 3"
proof -
  have p: "sourcesRef playing = {0}" "nextStartTimeRef playing = 1"
    by (simp_all add: playing_eq)
  have a: "nextStartTimeRef (step (+) (Message (example_env 3) audio_message) playing) = 3"
    by (simp add: playing_eq example_connected_eq handler_defs example_defs Let_def)
  have i: "sourcesRef interrupted_inflight = {}" "nextStartTimeRef interrupted_inflight = 0"
    "sourceStops interrupted_inflight = {0}" "sourceCount interrupted_inflight = 1"
    by (simp_all add: interrupted_inflight_eq playing_eq)
  have s: "scheduled (+) [Decoded audio_message (Some 1)] interrupted_inflight = [(1, 0, 1)]"
    by (simp add: scheduled_decoded i)
  have d: "sourcesRef (step (+) (Decoded audio_message (Some 1)) interrupted_inflight) = {1}"
    "sourceStops (step (+) (Decoded audio_message (Some 1)) interrupted_inflight) = {0}"
    by (simp_all add: interrupted_inflight_eq playing_eq example_connected_eq
        onmessage_resume_def onmessage_interrupted_def audio_message_def Let_def)
  have f: "interrupted interrupt_audio_message"
    "sourcesRef (onmessage (+) (example_env 3) interrupt_audio_message None playing) = {0}"
    "sourceStops (onmessage (+) (example_env 3) interrupt_audio_message None playing) = {}"
    "nextStartTimeRef (onmessage (+) (example_env 3) interrupt_audio_message None playing) = 3"
    by (simp_all add: onmessage_def playing_eq example_connected_eq handler_defs example_defs
        Let_def)
  from p a i(1-3) s d f show ?thesis by simp
qed

section \<open>Starting\<close>

lemma no_error_state_step:
  "sessionState st \<noteq> S_error \<Longrightarrow> sessionState (step fadd e st) \<noteq> S_error"
  by (cases e) (auto simp: handler_defs Let_def split: option.split start_outcome.split)

lemma no_error_state_run:
  "sessionState st \<noteq> S_error \<Longrightarrow> sessionState (run fadd evs st) \<noteq> S_error"
  by (induction evs arbitrary: st) (auto simp: no_error_state_step)

text \<open>
  What the controls achieve: \<open>startSession\<close> tests nothing itself, and both call sites
  test the state.  While \<open>connecting\<close> a click on either control changes nothing; while
  \<open>connected\<close> the starter prompts change nothing and the main button performs
  \<open>stopSession\<close>; only while \<open>disconnected\<close> do they begin \<open>startSession\<close>.
\<close>

lemma controls_gate_start:
  "(sessionState st = S_connecting \<longrightarrow>
      mainButton_onClick exn st = st \<and> starterPrompt_onClick exn st = st) \<and>
   (sessionState st = S_connected \<longrightarrow>
      mainButton_onClick exn st = stopSession st \<and> starterPrompt_onClick exn st = st) \<and>
   (sessionState st = S_disconnected \<longrightarrow>
      mainButton_onClick exn st = startSession_begin exn st \<and>
      starterPrompt_onClick exn st = startSession_begin exn st)"
  by (simp add: mainButton_onClick_def starterPrompt_onClick_def)

lemma enters_connecting:
  "sessionState st \<noteq> S_error \<Longrightarrow> sessionState (step fadd e st) = S_connecting \<Longrightarrow>
   sessionState st \<noteq> S_connecting \<Longrightarrow>
   sessionState st = S_disconnected \<and> (e = MainButton None \<or> e = StarterPrompt None)"
  by (cases e; cases "sessionState st")
     (auto simp: handler_defs Let_def split: option.splits start_outcome.splits if_splits)

lemma restart_closed_eq:
  "restart_closed = example_connected\<lparr>sessionState := S_disconnected, activeSessionRef := None,
     streamRef := None, closeCalls := [0], trackStops := [0]\<rparr>"
  by (simp add: restart_closed_def example_connected_eq handler_defs Let_def)

lemma two_sessions_eq:
  "two_sessions = example_connected\<lparr>sessionState := S_connected, activeSessionRef := Some 2,
     streamRef := Some 2, closeCalls := [0], trackStops := [0], connects := 3,
     resolvedSessions := {0, 1, 2}, processors := {0, 1, 2}\<rparr>"
  by (simp add: two_sessions_def restart_closed_eq example_connected_eq handler_defs Let_def
      insert_commute)

text \<open>
  C5.  The tests in the controls do not keep the sessions apart, because the
  \<open>onclose\<close> of a stopped session writes the state of the next start.  The session of
  \<open>example_connected\<close> is stopped with the main button and the main button is clicked
  again: the state is \<open>connecting\<close> and \<open>startSession\<close> awaits.  Now the \<open>onclose\<close> of
  the stopped session arrives (line 176) and \<open>stopSession\<close> sets the state back to
  \<open>disconnected\<close> (\<open>restart_closed\<close>), so a further click begins a second
  \<open>startSession\<close>.  Both continue, both call \<open>ai.live.connect\<close>, and both sessions open
  and resolve (\<open>two_sessions\<close>): \<open>connect\<close> has been called three times and \<open>close()\<close>
  on session 0 only; line 180 has overwritten the handle of session 1 with that of
  session 2, and line 82 the stream of session 1, so a later stop closes session 2
  alone and stops the tracks of stream 2 alone.  Both sessions are live: each one's
  capture callback sends audio to it.
\<close>

theorem two_live_sessions:
  "sessionState example_connected = S_connected \<and>
   sessionState (run (+) [MainButton None, MainButton None] example_connected) = S_connecting \<and>
   sessionState restart_closed = S_disconnected \<and>
   sessionState (step (+) (MainButton None) restart_closed) = S_connecting \<and>
   connects example_connected = 1 \<and>
   connects two_sessions = 3 \<and>
   closeCalls two_sessions = [0] \<and>
   resolvedSessions two_sessions = {0, 1, 2} \<and>
   activeSessionRef two_sessions = Some 2 \<and>
   streamRef two_sessions = Some 2 \<and>
   trackStops two_sessions = [0] \<and>
   sentAudio two_sessions = [] \<and>
   sentAudio (run (+) [AudioProcess 1, AudioProcess 2] two_sessions) = [1, 2] \<and>
   closeCalls (stopSession two_sessions) = [0, 2] \<and>
   trackStops (stopSession two_sessions) = [0, 2]"
proof -
  have e: "sessionState example_connected = S_connected" "connects example_connected = 1"
    by (simp_all add: example_connected_eq)
  have c: "sessionState (run (+) [MainButton None, MainButton None] example_connected)
      = S_connecting"
    by (simp add: example_connected_eq handler_defs Let_def)
  have r: "sessionState restart_closed = S_disconnected"
    "sessionState (step (+) (MainButton None) restart_closed) = S_connecting"
    by (simp_all add: restart_closed_eq example_connected_eq handler_defs Let_def)
  have t: "connects two_sessions = 3" "closeCalls two_sessions = [0]"
    "resolvedSessions two_sessions = {0, 1, 2}" "activeSessionRef two_sessions = Some 2"
    "streamRef two_sessions = Some 2" "trackStops two_sessions = [0]"
    "sentAudio two_sessions = []"
    by (simp_all add: two_sessions_eq example_connected_eq)
  have a: "sentAudio (run (+) [AudioProcess 1, AudioProcess 2] two_sessions) = [1, 2]"
    by (simp add: onaudioprocess_def t)
  have s: "closeCalls (stopSession two_sessions) = [0, 2]"
    "trackStops (stopSession two_sessions) = [0, 2]"
    using stopSession_effect [of two_sessions] by (simp_all add: t)
  from e c r t a s show ?thesis by simp
qed

section \<open>Capture after a stop\<close>

lemma restarted_eq:
  "closeCalls restarted = [0] \<and> processors restarted = {0, 1} \<and>
   activeSessionRef restarted = Some 1 \<and>
   sentAudio restarted = [] \<and> sessionState restarted = S_connected"
  by (simp add: restarted_def App_init_def handler_defs truthy_def insert_commute)

lemma capture_noop_without_handle:
  "activeSessionRef st = None \<Longrightarrow> onaudioprocess s st = st"
  by (simp add: onaudioprocess_def)

lemma capture_noop_after_stop:
  "onaudioprocess s (stopSession st) = stopSession st \<and>
   onaudioprocess s (onerror st) = onerror st \<and>
   onaudioprocess s (onclose st) = onclose st"
  by (simp add: onaudioprocess_def onerror_def onclose_def stopSession_def Let_def
      split: option.split)

lemma step_without_handle:
  "\<not> resolves e \<Longrightarrow> activeSessionRef st = None \<Longrightarrow>
   activeSessionRef (step fadd e st) = None \<and> sentAudio (step fadd e st) = sentAudio st"
  by (cases e) (auto simp: handler_defs Let_def split: option.split start_outcome.split)

lemma capture_silent_until_resolved:
  "\<forall>e \<in> set evs. \<not> resolves e \<Longrightarrow> activeSessionRef st = None \<Longrightarrow>
   activeSessionRef (run fadd evs st) = None \<and> sentAudio (run fadd evs st) = sentAudio st"
proof (induction evs arbitrary: st)
  case Nil
  then show ?case by simp
next
  case (Cons e es)
  then have "\<not> resolves e" and "\<forall>e \<in> set es. \<not> resolves e" by simp_all
  with Cons.prems(2) Cons.IH [of "step fadd e st"] step_without_handle [of e st fadd]
  show ?case by simp
qed

text \<open>
  C8.  Right after \<open>stopSession\<close>, \<open>onerror\<close> or \<open>onclose\<close> no handle is stored and a
  capture callback sends nothing (\<open>capture_noop_after_stop\<close>), and none does until the
  promise of a later session resolves (\<open>capture_silent_until_resolved\<close>).  But the guard of line 118
  looks at the shared ref, not at the session the callback belongs to, and no code removes
  the script processor of a stopped session.  In \<open>restarted\<close> session 0 has been stopped
  and closed and session 1 is open: the callback of session 0 still fires, finds the
  handle of session 1 in the ref, and calls \<open>sendRealtimeInput\<close> on session 0.
\<close>

theorem stale_capture_sends:
  "closeCalls restarted = [0] \<and> 0 \<in> processors restarted \<and>
   sentAudio restarted = [] \<and>
   sentAudio (step (+) (AudioProcess 0) restarted) = [0]"
  using restarted_eq by (simp add: onaudioprocess_def)

end
